theory Spec2Isabelle
  imports Main "HOL-Library.Multiset" "HOL-Library.Sublist"
begin

section \<open>Data model of \<^verbatim>\<open>src/sync/issues.ts\<close>\<close>

text \<open>
  Modelled from the spec: the types \<^verbatim>\<open>Issue\<close>, \<^verbatim>\<open>Comment\<close>, \<^verbatim>\<open>IssueComparison\<close> and
  \<^verbatim>\<open>CommentComparison\<close>, which \<^verbatim>\<open>issues.ts\<close> imports from \<^verbatim>\<open>../types\<close>. The records
  carry the fields the specification lists, which are the fields \<^verbatim>\<open>issues.ts\<close> reads;
  the labels are a \<^verbatim>\<open>string[]\<close>, as the signature of \<^verbatim>\<open>arraysEqual\<close> has them.

  An issue body is a string that may be missing at run time: \<^verbatim>\<open>body || ''\<close> in the
  source guards against it. The three values of a missing-or-present string are kept
  apart, because \<^verbatim>\<open>!==\<close> tells \<^verbatim>\<open>undefined\<close> from \<^verbatim>\<open>null\<close>.
\<close>

datatype js_text = Undefined | Null | Str string

datatype issue_state = Open | Closed

text \<open>
  Modelled from the spec: \<^verbatim>\<open>Issue\<close>. Issue numbers are the non-negative integers a
  tracker hands out; they stay far below \<open>2^53\<close>, where a JavaScript number is an exact
  integer and prints in plain decimal.
\<close>

record issue =
  number :: nat
  title :: string
  body :: js_text
  state :: issue_state
  labels :: "string list"

text \<open>
  Modelled from the spec: \<^verbatim>\<open>Comment\<close>. A comment is a JavaScript object, and
  \<^verbatim>\<open>compareComments\<close> compares two of them with \<^verbatim>\<open>!==\<close>, which is identity of objects
  and not equality of their fields. The field \<open>oid\<close> is that identity (the address of
  the object); it is no field of the source's type. Two entries of an array with the
  same \<open>oid\<close> are the same object.
\<close>

record comment =
  oid :: nat
  body :: string

datatype action = Create | Update | Skip

text \<open>
  Modelled from the spec: \<^verbatim>\<open>IssueComparison\<close>, whose target issue is optional, and
  \<^verbatim>\<open>CommentComparison\<close>.
\<close>

record issue_comparison =
  sourceIssue :: issue
  targetIssue :: "issue option"
  action :: action

record comment_comparison =
  sourceComment :: comment
  action :: action

text \<open>
  Modelled from the spec: the repository descriptor that \<^verbatim>\<open>getRepoInfo\<close> returns, of
  which the url is read.
\<close>

record repo_info =
  url :: string

section \<open>Effects: thrown values, the log, client calls\<close>

text \<open>
  Anything can be thrown in JavaScript. The module only ever asks a caught value for
  \<^verbatim>\<open>error instanceof Error ? error.message : String(error)\<close>: \<open>JsError m\<close> is an
  \<^verbatim>\<open>Error\<close> instance with message \<open>m\<close>, \<open>JsValue r\<close> any other value, with \<open>r\<close> what
  \<^verbatim>\<open>String\<close> makes of it.
\<close>

datatype thrown = JsError string | JsValue string

fun errorText :: "thrown \<Rightarrow> string" where
  "errorText (JsError m) = m"
| "errorText (JsValue r) = r"

datatype level = Debug | Info | Warning | Error

datatype side = Source | Target

datatype call =
    SyncIssues
  | GetIssueComments nat
  | CreateIssue issue
  | UpdateIssue nat issue
  | CreateIssueComment nat comment
  | GetRepoInfo

text \<open>
  What the pass does to the outside is recorded as a list of events in the order they
  happen: a line written with \<^verbatim>\<open>core.debug/info/warning/error\<close>, or a method called on
  the source or the target client. Writing a line does not throw.
\<close>

datatype event = Log level string | Call side call

text \<open>
  Modelled from the spec: the tracker client (\<^verbatim>\<open>GitHubClient | GitLabClient\<close>, from
  \<^verbatim>\<open>../github\<close> and \<^verbatim>\<open>../gitlab\<close>), an external collaborator given by the methods that
  \<^verbatim>\<open>issues.ts\<close> calls. Each method acts on the outside world \<open>'w\<close> and either returns or
  throws; what it does is a parameter of the pass. Every method is assumed to settle
  (the awaited promise resolves or rejects).
\<close>

record 'w client =
  client_syncIssues :: "'w \<Rightarrow> (thrown + issue list) \<times> 'w"
  client_getIssueComments :: "nat \<Rightarrow> 'w \<Rightarrow> (thrown + comment list) \<times> 'w"
  client_createIssue :: "issue \<Rightarrow> 'w \<Rightarrow> (thrown + unit) \<times> 'w"
  client_updateIssue :: "nat \<Rightarrow> issue \<Rightarrow> 'w \<Rightarrow> (thrown + unit) \<times> 'w"
  client_createIssueComment :: "nat \<Rightarrow> comment \<Rightarrow> 'w \<Rightarrow> (thrown + unit) \<times> 'w"
  client_getRepoInfo :: "'w \<Rightarrow> (thrown + repo_info) \<times> 'w"

text \<open>
  A piece of the program takes the state (the world and the events so far) and gives
  back either the thrown value or its result, with the new state.
\<close>

type_synonym 'w st = "'w \<times> event list"

type_synonym ('w, 'a) prog = "'w st \<Rightarrow> (thrown + 'a) \<times> 'w st"

definition ret :: "'a \<Rightarrow> ('w, 'a) prog" where
  "ret x s = (Inr x, s)"

definition throw :: "thrown \<Rightarrow> ('w, 'a) prog" where
  "throw e s = (Inl e, s)"

text \<open>Statement after statement: a throw in the first skips the second.\<close>

definition seq :: "('w, 'a) prog \<Rightarrow> ('a \<Rightarrow> ('w, 'b) prog) \<Rightarrow> ('w, 'b) prog" where
  "seq m f s = (case m s of (Inl e, s') \<Rightarrow> (Inl e, s') | (Inr x, s') \<Rightarrow> f x s')"

text \<open>\<^verbatim>\<open>try { m } catch (error) { h error }\<close>\<close>

definition try_catch :: "('w, 'a) prog \<Rightarrow> (thrown \<Rightarrow> ('w, 'a) prog) \<Rightarrow> ('w, 'a) prog" where
  "try_catch m h s = (case m s of (Inl e, s') \<Rightarrow> h e s' | (Inr x, s') \<Rightarrow> (Inr x, s'))"

definition core_log :: "level \<Rightarrow> string \<Rightarrow> ('w, unit) prog" where
  "core_log lv msg s = (Inr (), (fst s, snd s @ [Log lv msg]))"

definition invoke :: "side \<Rightarrow> call \<Rightarrow> ('w \<Rightarrow> (thrown + 'a) \<times> 'w) \<Rightarrow> ('w, 'a) prog" where
  "invoke sd c f s = (case f (fst s) of (r, w') \<Rightarrow> (r, (w', snd s @ [Call sd c])))"

text \<open>\<^verbatim>\<open>for (const x of xs) { f x }\<close>\<close>

primrec forEach :: "'a list \<Rightarrow> ('a \<Rightarrow> ('w, unit) prog) \<Rightarrow> ('w, unit) prog" where
  "forEach [] f = ret ()"
| "forEach (x # xs) f = seq (f x) (\<lambda>_. forEach xs f)"

section \<open>Strings\<close>

text \<open>
  A number inside a template literal prints in decimal. The glyphs of the log lines
  are outside ASCII; they are given by their UTF-8 bytes.
\<close>

definition digit :: "nat \<Rightarrow> char" where
  "digit d = ''0123456789'' ! d"

function numberToString :: "nat \<Rightarrow> string" where
  "numberToString n =
     (if n < 10 then [digit n] else numberToString (n div 10) @ [digit (n mod 10)])"
  by pat_completeness auto
termination
  by (relation "measure id") auto

definition glyph_magnifier :: string where
  "glyph_magnifier = [CHR 0xF0, CHR 0x9F, CHR 0x94, CHR 0x8D]"

definition glyph_memo :: string where
  "glyph_memo = [CHR 0xF0, CHR 0x9F, CHR 0x93, CHR 0x9D]"

definition glyph_check :: string where
  "glyph_check = [CHR 0xE2, CHR 0x9C, CHR 0x93]"

definition glyph_next :: string where
  "glyph_next = [CHR 0xE2, CHR 0x8F, CHR 0xAD, CHR 0xEF, CHR 0xB8, CHR 0x8F]"

definition glyph_speech :: string where
  "glyph_speech = [CHR 0xF0, CHR 0x9F, CHR 0x92, CHR 0xAC]"

definition glyph_chart :: string where
  "glyph_chart = [CHR 0xF0, CHR 0x9F, CHR 0x93, CHR 0x8A]"

text \<open>\<^verbatim>\<open>body || ''\<close>: a missing body and the empty string both give the empty string.\<close>

fun orEmpty :: "js_text \<Rightarrow> string" where
  "orEmpty Undefined = ''''"
| "orEmpty Null = ''''"
| "orEmpty (Str s) = s"

section \<open>The comparators\<close>

text \<open>
  \<^verbatim>\<open>a.length === b.length && a.every((val, index) => val === b[index])\<close>. Reading
  \<^verbatim>\<open>b[index]\<close> past the end gives \<^verbatim>\<open>undefined\<close>, which no string equals.
\<close>

definition arraysEqual :: "string list \<Rightarrow> string list \<Rightarrow> bool" where
  "arraysEqual a b =
     (length a = length b \<and>
      list_all (\<lambda>(val, index). index < length b \<and> val = b ! index) (zip a [0..<length a]))"

text \<open>
  The loop of \<^verbatim>\<open>compareIssues\<close>, with the array \<^verbatim>\<open>comparisons\<close> it pushes to.
  \<^verbatim>\<open>Array.prototype.find\<close> gives the first element that passes, as \<^const>\<open>find\<close> does.
\<close>

primrec compareIssues_loop ::
  "issue list \<Rightarrow> issue list \<Rightarrow> issue_comparison list \<Rightarrow> ('w, issue_comparison list) prog"
where
  "compareIssues_loop [] targetIssues comparisons = ret comparisons"
| "compareIssues_loop (srcIssue # rest) targetIssues comparisons =
     (case find (\<lambda>target. title target = title srcIssue) targetIssues of
        None \<Rightarrow>
          seq (core_log Debug
                (''Issue '' @ [CHR 0x22] @ title srcIssue @ [CHR 0x22] @
                 '' will be created in target''))
            (\<lambda>_. compareIssues_loop rest targetIssues
               (comparisons @
                [\<lparr>sourceIssue = srcIssue, targetIssue = None,
                  issue_comparison.action = Create\<rparr>]))
      | Some tgtIssue \<Rightarrow>
          if issue.body srcIssue \<noteq> issue.body tgtIssue \<or>
             state srcIssue \<noteq> state tgtIssue \<or>
             \<not> arraysEqual (labels srcIssue) (labels tgtIssue)
          then
            seq (core_log Debug
                  (''Issue '' @ [CHR 0x22] @ title srcIssue @ [CHR 0x22] @
                   '' will be updated in target''))
              (\<lambda>_. compareIssues_loop rest targetIssues
                 (comparisons @
                  [\<lparr>sourceIssue = srcIssue, targetIssue = Some tgtIssue,
                    issue_comparison.action = Update\<rparr>]))
          else
            seq (core_log Debug
                  (''Issue '' @ [CHR 0x22] @ title srcIssue @ [CHR 0x22] @
                   '' is up to date''))
              (\<lambda>_. compareIssues_loop rest targetIssues
                 (comparisons @
                  [\<lparr>sourceIssue = srcIssue, targetIssue = Some tgtIssue,
                    issue_comparison.action = Skip\<rparr>])))"

definition compareIssues :: "issue list \<Rightarrow> issue list \<Rightarrow> ('w, issue_comparison list) prog" where
  "compareIssues sourceIssues targetIssues = compareIssues_loop sourceIssues targetIssues []"

text \<open>
  \<^verbatim>\<open>sourceComments[0]\<close> and \<^verbatim>\<open>sourceComments[sourceComments.length - 1]\<close> are
  \<^verbatim>\<open>undefined\<close> on the empty array and objects (truthy) otherwise.
\<close>

definition openingOf :: "comment list \<Rightarrow> comment option" where
  "openingOf sourceComments =
     (case sourceComments of [] \<Rightarrow> None | c # _ \<Rightarrow> Some c)"

definition closingOf :: "comment list \<Rightarrow> comment option" where
  "closingOf sourceComments =
     (if sourceComments = [] then None
      else Some (sourceComments ! (length sourceComments - 1)))"

definition compareComments :: "comment list \<Rightarrow> comment list \<Rightarrow> comment_comparison list" where
  "compareComments sourceComments targetComments =
     (let openingComment = openingOf sourceComments;
          closingComment = closingOf sourceComments;
          comparisons1 =
            (case openingComment of
               None \<Rightarrow> []
             | Some oc \<Rightarrow>
                 if \<not> list_ex (\<lambda>c. comment.body c = comment.body oc) targetComments
                 then [\<lparr>sourceComment = oc, action = Create\<rparr>]
                 else []);
          comparisons2 =
            (case closingComment of
               None \<Rightarrow> comparisons1
             | Some cc \<Rightarrow>
                 if map_option oid closingComment \<noteq> map_option oid openingComment \<and>
                    \<not> list_ex (\<lambda>c. comment.body c = comment.body cc) targetComments
                 then comparisons1 @ [\<lparr>sourceComment = cc, action = Create\<rparr>]
                 else comparisons1)
      in comparisons2)"

section \<open>The annotator and the client wrappers\<close>

definition prepareSourceLink :: "'w client \<Rightarrow> issue \<Rightarrow> ('w, string) prog" where
  "prepareSourceLink sourceClient srcIssue =
     seq (invoke Source GetRepoInfo (client_getRepoInfo sourceClient))
       (\<lambda>repoInfo.
          ret (''**Original Issue**: ['' @ title srcIssue @ '']('' @ url repoInfo @
               ''/issues/'' @ numberToString (number srcIssue) @ '')''))"

definition createIssue :: "'w client \<Rightarrow> issue_comparison \<Rightarrow> ('w, unit) prog" where
  "createIssue target comparison =
     seq (core_log Info
           (glyph_memo @ '' Creating issue '' @ [CHR 0x22] @
            title (sourceIssue comparison) @ [CHR 0x22]))
       (\<lambda>_. seq (invoke Target (CreateIssue (sourceIssue comparison))
                   (client_createIssue target (sourceIssue comparison)))
          (\<lambda>_. core_log Info
                  (glyph_check @ '' Created issue '' @ [CHR 0x22] @
                   title (sourceIssue comparison) @ [CHR 0x22])))"

definition updateIssue :: "'w client \<Rightarrow> issue_comparison \<Rightarrow> ('w, unit) prog" where
  "updateIssue target comparison =
     (case targetIssue comparison of
        None \<Rightarrow> ret ()
      | Some tgtIssue \<Rightarrow>
          seq (core_log Info
                (glyph_memo @ '' Updating issue '' @ [CHR 0x22] @
                 title (sourceIssue comparison) @ [CHR 0x22]))
            (\<lambda>_. seq (invoke Target (UpdateIssue (number tgtIssue) (sourceIssue comparison))
                        (client_updateIssue target (number tgtIssue) (sourceIssue comparison)))
               (\<lambda>_. core_log Info
                       (glyph_check @ '' Updated issue '' @ [CHR 0x22] @
                        title (sourceIssue comparison) @ [CHR 0x22]))))"

definition createComment :: "'w client \<Rightarrow> nat \<Rightarrow> comment_comparison \<Rightarrow> ('w, unit) prog" where
  "createComment target issueNumber comparison =
     seq (core_log Info
           (glyph_speech @ '' Creating comment in issue #'' @ numberToString issueNumber))
       (\<lambda>_. seq (invoke Target (CreateIssueComment issueNumber (sourceComment comparison))
                   (client_createIssueComment target issueNumber (sourceComment comparison)))
          (\<lambda>_. core_log Info
                  (glyph_check @ '' Created comment in issue #'' @
                   numberToString issueNumber)))"

definition logSyncPlan :: "issue_comparison list \<Rightarrow> ('w, unit) prog" where
  "logSyncPlan comparisons =
     (let create = length (filter (\<lambda>c. issue_comparison.action c = Create) comparisons);
          update = length (filter (\<lambda>c. issue_comparison.action c = Update) comparisons);
          skip = length (filter (\<lambda>c. issue_comparison.action c = Skip) comparisons)
      in core_log Info
           (''\<newline>'' @ glyph_chart @ '' Sync Plan Summary:\<newline>'' @
            ''  - Create: '' @ numberToString create @ '' issues\<newline>'' @
            ''  - Update: '' @ numberToString update @ '' issues\<newline>'' @
            ''  - Skip: '' @ numberToString skip @ '' issues (already in sync)\<newline>''))"

section \<open>Comment synchronisation\<close>

text \<open>The body of the loop over the comment comparisons, with its own try and catch.\<close>

definition syncIssueComments_item ::
  "'w client \<Rightarrow> nat \<Rightarrow> comment_comparison \<Rightarrow> ('w, unit) prog" where
  "syncIssueComments_item target targetIssueNumber comparison =
     try_catch
       (if comment_comparison.action comparison = Create
        then createComment target targetIssueNumber comparison
        else ret ())
       (\<lambda>error. core_log Warning
          (''Failed to sync comment in issue #'' @ numberToString targetIssueNumber @
           '': '' @ errorText error))"

definition syncIssueComments :: "'w client \<Rightarrow> 'w client \<Rightarrow> nat \<Rightarrow> nat \<Rightarrow> ('w, unit) prog" where
  "syncIssueComments source target sourceIssueNumber targetIssueNumber =
     try_catch
       (seq (invoke Source (GetIssueComments sourceIssueNumber)
              (client_getIssueComments source sourceIssueNumber))
          (\<lambda>sourceComments.
             seq (invoke Target (GetIssueComments targetIssueNumber)
                   (client_getIssueComments target targetIssueNumber))
               (\<lambda>targetComments.
                  forEach (compareComments sourceComments targetComments)
                    (syncIssueComments_item target targetIssueNumber))))
       (\<lambda>error. core_log Warning
          (''Failed to sync comments for issue #'' @ numberToString sourceIssueNumber @
           '': '' @ errorText error))"

section \<open>The reconciliation pass\<close>

text \<open>The \<^verbatim>\<open>switch\<close> on the action of one comparison.\<close>

definition syncIssues_switch :: "'w client \<Rightarrow> 'w client \<Rightarrow> issue_comparison \<Rightarrow> ('w, unit) prog" where
  "syncIssues_switch source target comparison =
     (case issue_comparison.action comparison of
        Create \<Rightarrow>
          seq (prepareSourceLink source (sourceIssue comparison))
            (\<lambda>sourceLink.
               createIssue target
                 \<lparr>sourceIssue =
                    (sourceIssue comparison)
                      \<lparr>issue.body :=
                         Str (orEmpty (issue.body (sourceIssue comparison)) @
                              ''\<newline>\<newline>'' @ sourceLink)\<rparr>,
                  targetIssue = None,
                  issue_comparison.action = Create\<rparr>)
      | Update \<Rightarrow> updateIssue target comparison
      | Skip \<Rightarrow>
          core_log Info
            (glyph_next @ '' Skipping '' @ [CHR 0x22] @ title (sourceIssue comparison) @
             [CHR 0x22] @ '' - already in sync''))"

text \<open>What stands inside the \<^verbatim>\<open>try\<close> of the loop: the switch, then the comments.\<close>

definition syncIssues_try :: "'w client \<Rightarrow> 'w client \<Rightarrow> issue_comparison \<Rightarrow> ('w, unit) prog" where
  "syncIssues_try source target comparison =
     seq (syncIssues_switch source target comparison)
       (\<lambda>_. case targetIssue comparison of
               None \<Rightarrow> ret ()
             | Some tgtIssue \<Rightarrow>
                 syncIssueComments source target
                   (number (sourceIssue comparison)) (number tgtIssue))"

text \<open>The body of the loop over the issue comparisons.\<close>

definition syncIssues_item :: "'w client \<Rightarrow> 'w client \<Rightarrow> issue_comparison \<Rightarrow> ('w, unit) prog" where
  "syncIssues_item source target comparison =
     try_catch (syncIssues_try source target comparison)
       (\<lambda>error. core_log Warning
          (''Failed to process issue '' @ [CHR 0x22] @ title (sourceIssue comparison) @
           [CHR 0x22] @ '': '' @ errorText error))"

definition syncIssues :: "'w client \<Rightarrow> 'w client \<Rightarrow> ('w, unit) prog" where
  "syncIssues source target =
     try_catch
       (seq (invoke Source SyncIssues (client_syncIssues source))
          (\<lambda>sourceIssues.
             seq (invoke Target SyncIssues (client_syncIssues target))
               (\<lambda>targetIssues.
                  seq (compareIssues sourceIssues targetIssues)
                    (\<lambda>issueComparisons.
                       seq (core_log Info
                             (''\<newline>'' @ glyph_magnifier @ '' Issue Sync Analysis:''))
                         (\<lambda>_. seq (logSyncPlan issueComparisons)
                            (\<lambda>_. seq (forEach issueComparisons
                                        (syncIssues_item source target))
                               (\<lambda>_. core_log Info
                                       (glyph_check @
                                        '' Issue synchronization completed''))))))))
       (\<lambda>error.
          seq (core_log Error (''Issue synchronization failed: '' @ errorText error))
            (\<lambda>_. throw error))"

section \<open>The specification's words as definitions\<close>

text \<open>
  One source issue against the target list, as the specification words it: the first
  target issue with an equal title is the match; no match is a create, a match that
  differs in body, state or label sequence an update, any other match a skip.
\<close>

definition spec_compareIssue :: "issue list \<Rightarrow> issue \<Rightarrow> issue_comparison" where
  "spec_compareIssue targetIssues srcIssue =
     (case find (\<lambda>t. title t = title srcIssue) targetIssues of
        None \<Rightarrow>
          \<lparr>sourceIssue = srcIssue, targetIssue = None, issue_comparison.action = Create\<rparr>
      | Some t \<Rightarrow>
          \<lparr>sourceIssue = srcIssue, targetIssue = Some t,
           issue_comparison.action =
             (if issue.body srcIssue = issue.body t \<and> state srcIssue = state t \<and>
                 labels srcIssue = labels t
              then Skip else Update)\<rparr>)"

section \<open>Sample issues and clients\<close>

text \<open>
  The issues of the specification's scenarios: Bug A exists on both sides and the
  target's copy is stale, Bug B exists on the source only and has no body, Bug C is on
  both sides with three target copies that differ in their labels at most.
\<close>

definition bugA :: issue where
  "bugA = \<lparr>number = 1, title = ''Bug A'', body = Str ''x'', state = Open, labels = [''bug'']\<rparr>"

definition bugA_stale :: issue where
  "bugA_stale =
     \<lparr>number = 7, title = ''Bug A'', body = Str ''old'', state = Open, labels = [''bug'']\<rparr>"

definition bugB :: issue where
  "bugB = \<lparr>number = 2, title = ''Bug B'', body = Undefined, state = Open, labels = []\<rparr>"

definition bugC :: issue where
  "bugC =
     \<lparr>number = 3, title = ''Bug C'', body = Str ''c'', state = Closed, labels = [''p1'', ''ui'']\<rparr>"

definition bugC_same :: issue where
  "bugC_same =
     \<lparr>number = 8, title = ''Bug C'', body = Str ''c'', state = Closed, labels = [''p1'', ''ui'']\<rparr>"

definition bugC_reordered :: issue where
  "bugC_reordered =
     \<lparr>number = 9, title = ''Bug C'', body = Str ''c'', state = Closed, labels = [''ui'', ''p1'']\<rparr>"

text \<open>Three comments of a source thread.\<close>

definition comment_first :: comment where
  "comment_first = \<lparr>oid = 100, body = ''first''\<rparr>"

definition comment_middle :: comment where
  "comment_middle = \<lparr>oid = 101, body = ''between''\<rparr>"

definition comment_last :: comment where
  "comment_last = \<lparr>oid = 102, body = ''last''\<rparr>"

text \<open>
  Two clients over a world that is the list of issues in the target tracker. The source
  holds Bug A and Bug B and a thread of three comments on every issue. The target lists
  its issues, stores what it is asked to create, rejects every update, and rejects a
  comment whose body is \<open>first\<close>. The variants differ in one method each.
\<close>

definition scenario_source :: "issue list client" where
  "scenario_source =
     \<lparr>client_syncIssues = (\<lambda>w. (Inr [bugA, bugB], w)),
      client_getIssueComments = (\<lambda>n w. (Inr [comment_first, comment_middle, comment_last], w)),
      client_createIssue = (\<lambda>i w. (Inr (), w)),
      client_updateIssue = (\<lambda>n i w. (Inr (), w)),
      client_createIssueComment = (\<lambda>n c w. (Inr (), w)),
      client_getRepoInfo = (\<lambda>w. (Inr \<lparr>url = ''https://src.example/o/r''\<rparr>, w))\<rparr>"

definition scenario_target :: "issue list client" where
  "scenario_target =
     \<lparr>client_syncIssues = (\<lambda>w. (Inr w, w)),
      client_getIssueComments = (\<lambda>n w. (Inr [], w)),
      client_createIssue = (\<lambda>i w. (Inr (), w @ [i])),
      client_updateIssue = (\<lambda>n i w. (Inl (JsError ''update rejected''), w)),
      client_createIssueComment =
        (\<lambda>n c w. if comment.body c = ''first'' then (Inl (JsValue ''denied''), w)
                 else (Inr (), w)),
      client_getRepoInfo = (\<lambda>w. (Inr \<lparr>url = ''https://tgt.example/o/r''\<rparr>, w))\<rparr>"

definition accepting_target :: "issue list client" where
  "accepting_target = scenario_target\<lparr>client_updateIssue := (\<lambda>n i w. (Inr (), w))\<rparr>"

definition unreachable_target :: "issue list client" where
  "unreachable_target =
     scenario_target\<lparr>client_syncIssues := (\<lambda>w. (Inl (JsError ''unreachable''), w))\<rparr>"

definition unreachable_source :: "issue list client" where
  "unreachable_source =
     scenario_source\<lparr>client_syncIssues := (\<lambda>w. (Inl (JsValue ''timeout''), w))\<rparr>"

definition commentless_source :: "issue list client" where
  "commentless_source =
     scenario_source\<lparr>client_getIssueComments := (\<lambda>n w. (Inl (JsError ''no comments''), w))\<rparr>"

definition rejecting_target :: "issue list client" where
  "rejecting_target =
     scenario_target\<lparr>client_createIssue := (\<lambda>i w. (Inl (JsError ''create rejected''), w))\<rparr>"

definition descriptorless_source :: "issue list client" where
  "descriptorless_source =
     scenario_source\<lparr>client_getRepoInfo := (\<lambda>w. (Inl (JsValue ''no descriptor''), w))\<rparr>"

text \<open>The client calls among the events, and the warnings among them, in order.\<close>

fun calls :: "event list \<Rightarrow> (side \<times> call) list" where
  "calls [] = []"
| "calls (Call sd c # evs) = (sd, c) # calls evs"
| "calls (Log lv msg # evs) = calls evs"

fun warnings :: "event list \<Rightarrow> string list" where
  "warnings [] = []"
| "warnings (Log Warning msg # evs) = msg # warnings evs"
| "warnings (ev # evs) = warnings evs"

fun isCommentCall :: "call \<Rightarrow> bool" where
  "isCommentCall (GetIssueComments n) = True"
| "isCommentCall (CreateIssueComment n c) = True"
| "isCommentCall c = False"

text \<open>
  The backlink as the specification words it: a fixed markdown line with the title of
  the source issue and the address \<^verbatim>\<open>{repoUrl}/issues/{number}\<close>.
\<close>

definition spec_backlink :: "string \<Rightarrow> issue \<Rightarrow> string" where
  "spec_backlink repoUrl srcIssue =
     ''**Original Issue**: ['' @ title srcIssue @ '']('' @ repoUrl @ ''/issues/'' @
     numberToString (number srcIssue) @ '')''"

declare numberToString.simps [simp del]

lemma numberToString_digit: "n < 10 \<Longrightarrow> numberToString n = [digit n]"
  by (simp add: numberToString.simps)

section \<open>The issue comparator\<close>

lemma every_index:
  "list_all (\<lambda>(val, index). index < length b \<and> val = b ! index) (zip a [0..<length a]) \<longleftrightarrow>
     (\<forall>i<length a. i < length b \<and> a ! i = b ! i)"
  by (simp add: list_all_length)

lemma arraysEqual_iff: "arraysEqual a b \<longleftrightarrow> a = b"
  unfolding arraysEqual_def every_index list_eq_iff_nth_eq [of a b] by auto

lemma compareIssues_loop_eq:
  "\<exists>msgs. compareIssues_loop src tgt acc s =
     (Inr (acc @ map (spec_compareIssue tgt) src), (fst s, snd s @ map (Log Debug) msgs))"
proof (induction src arbitrary: acc s)
  case Nil
  have "compareIssues_loop [] tgt acc s = (Inr (acc @ map (spec_compareIssue tgt) []), (fst s, snd s @ map (Log Debug) []))"
    by (simp add: ret_def)
  then show ?case by blast
next
  case (Cons a src)
  define c where "c = spec_compareIssue tgt a"
  have "\<exists>m. compareIssues_loop (a # src) tgt acc s =
      compareIssues_loop src tgt (acc @ [c]) (fst s, snd s @ [Log Debug m])"
  proof (cases "find (\<lambda>t. title t = title a) tgt")
    case None
    then show ?thesis
      by (intro exI) (simp add: c_def spec_compareIssue_def seq_def core_log_def)
  next
    case (Some t)
    show ?thesis
    proof (cases "issue.body a = issue.body t \<and> state a = state t \<and> labels a = labels t")
      case True
      with Some show ?thesis
        by (intro exI) (simp add: c_def spec_compareIssue_def seq_def core_log_def arraysEqual_iff)
    next
      case False
      with Some show ?thesis
        by (intro exI) (auto simp add: c_def spec_compareIssue_def seq_def core_log_def arraysEqual_iff)
    qed
  qed
  then obtain m where step: "compareIssues_loop (a # src) tgt acc s =
      compareIssues_loop src tgt (acc @ [c]) (fst s, snd s @ [Log Debug m])"
    by blast
  from Cons.IH [of "acc @ [c]" "(fst s, snd s @ [Log Debug m])"]
  obtain msgs where "compareIssues_loop src tgt (acc @ [c]) (fst s, snd s @ [Log Debug m]) =
     (Inr ((acc @ [c]) @ map (spec_compareIssue tgt) src), (fst s, (snd s @ [Log Debug m]) @ map (Log Debug) msgs))"
    by auto
  with step have "compareIssues_loop (a # src) tgt acc s =
     (Inr (acc @ map (spec_compareIssue tgt) (a # src)), (fst s, snd s @ map (Log Debug) (m # msgs)))"
    by (simp add: c_def)
  then show ?case by blast
qed

lemma compareIssues_eq:
  "\<exists>msgs. compareIssues src tgt s =
     (Inr (map (spec_compareIssue tgt) src), (fst s, snd s @ map (Log Debug) msgs))"
  using compareIssues_loop_eq [of src tgt "[]" s] by (simp add: compareIssues_def)


lemma spec_compareIssue_source: "sourceIssue (spec_compareIssue tgt a) = a"
  by (simp add: spec_compareIssue_def split: option.splits)

lemma spec_compareIssue_None:
  "targetIssue (spec_compareIssue tgt a) = None \<longleftrightarrow> (\<forall>t\<in>set tgt. title t \<noteq> title a)"
proof (cases "find (\<lambda>t. title t = title a) tgt")
  case None
  then have "\<forall>t\<in>set tgt. title t \<noteq> title a"
    by (auto simp: find_None_iff)
  with None show ?thesis
    by (simp add: spec_compareIssue_def)
next
  case (Some t)
  then have "t \<in> set tgt \<and> title t = title a"
    by (auto simp: find_Some_iff)
  with Some show ?thesis
    by (auto simp: spec_compareIssue_def)
qed

lemma spec_compareIssue_Some:
  assumes "targetIssue (spec_compareIssue tgt a) = Some t"
  shows "\<exists>k<length tgt. tgt ! k = t \<and> title t = title a \<and> (\<forall>j<k. title (tgt ! j) \<noteq> title a)"
proof -
  from assms have "find (\<lambda>t. title t = title a) tgt = Some t"
    by (simp add: spec_compareIssue_def split: option.splits)
  then show ?thesis
    unfolding find_Some_iff by blast
qed

lemma spec_compareIssue_present:
  "(targetIssue (spec_compareIssue tgt a) \<noteq> None) =
     (issue_comparison.action (spec_compareIssue tgt a) = Update \<or>
      issue_comparison.action (spec_compareIssue tgt a) = Skip)"
  by (simp add: spec_compareIssue_def split: option.splits)

lemma spec_compareIssue_Create:
  "(issue_comparison.action (spec_compareIssue tgt a) = Create) =
     (targetIssue (spec_compareIssue tgt a) = None)"
  by (simp add: spec_compareIssue_def split: option.splits)

text \<open>
  Claim C1. For every pair of issue lists, \<^const>\<open>compareIssues\<close> returns (it never throws)
  exactly one comparison per source issue, in the order of the source issues, and each
  is what the specification says of its source issue: matched to the first target issue
  with an equal title, a create when no title matches, an update when the match differs
  in body, state or label sequence, a skip otherwise. The result is a function of the
  two lists alone; the call writes debug lines and does nothing else to the state, and
  the comparisons carry the source issues as they were passed in.
\<close>

theorem compareIssues_refines_spec:
  "(\<exists>msgs. compareIssues sourceIssues targetIssues s =
      (Inr (map (spec_compareIssue targetIssues) sourceIssues),
       (fst s, snd s @ map (Log Debug) msgs))) \<and>
   length (map (spec_compareIssue targetIssues) sourceIssues) = length sourceIssues \<and>
   map sourceIssue (map (spec_compareIssue targetIssues) sourceIssues) = sourceIssues \<and>
   (\<forall>a. (targetIssue (spec_compareIssue targetIssues a) = None) =
          (\<forall>t\<in>set targetIssues. title t \<noteq> title a)) \<and>
   (\<forall>a t. targetIssue (spec_compareIssue targetIssues a) = Some t \<longrightarrow>
          (\<exists>k<length targetIssues. targetIssues ! k = t \<and> title t = title a \<and>
             (\<forall>j<k. title (targetIssues ! j) \<noteq> title a)))"
proof -
  have "map sourceIssue (map (spec_compareIssue targetIssues) sourceIssues) = sourceIssues"
    by (simp add: spec_compareIssue_source comp_def)
  then show ?thesis
    using compareIssues_eq [of sourceIssues targetIssues s]
      spec_compareIssue_None spec_compareIssue_Some by simp
qed

theorem compareIssues_refines_spec_witness:
  "fst (compareIssues [bugA, bugB, bugC] [bugC_reordered, bugA_stale, bugC_same] ((), [])) =
     Inr [\<lparr>sourceIssue = bugA, targetIssue = Some bugA_stale, issue_comparison.action = Update\<rparr>,
          \<lparr>sourceIssue = bugB, targetIssue = None, issue_comparison.action = Create\<rparr>,
          \<lparr>sourceIssue = bugC, targetIssue = Some bugC_reordered,
            issue_comparison.action = Update\<rparr>]"
proof -
  have "fst (compareIssues [bugA, bugB, bugC] [bugC_reordered, bugA_stale, bugC_same] ((), [])) =
      Inr (map (spec_compareIssue [bugC_reordered, bugA_stale, bugC_same]) [bugA, bugB, bugC])"
    using compareIssues_refines_spec
      [of "[bugA, bugB, bugC]" "[bugC_reordered, bugA_stale, bugC_same]" "((), [])"]
    by auto
  then show ?thesis
    by (simp add: spec_compareIssue_def bugA_def bugB_def bugC_def bugA_stale_def
        bugC_same_def bugC_reordered_def)
qed

text \<open>
  Claim C4. In every comparison that \<^const>\<open>compareIssues\<close> produces, the target issue is
  present exactly when the action is update or skip, so a create never carries one;
  and when no source title occurs among the target titles, every comparison is a create
  without a target issue.
\<close>

theorem targetIssue_present_iff_update_or_skip:
  "\<exists>cs. fst (compareIssues sourceIssues targetIssues s) = Inr cs \<and>
     (\<forall>c\<in>set cs. (targetIssue c \<noteq> None) =
        (issue_comparison.action c = Update \<or> issue_comparison.action c = Skip)) \<and>
     (\<forall>c\<in>set cs. (issue_comparison.action c = Create) = (targetIssue c = None)) \<and>
     ((\<forall>a\<in>set sourceIssues. \<forall>t\<in>set targetIssues. title t \<noteq> title a) \<longrightarrow>
        (\<forall>c\<in>set cs. issue_comparison.action c = Create \<and> targetIssue c = None))"
proof -
  let ?cs = "map (spec_compareIssue targetIssues) sourceIssues"
  have r: "fst (compareIssues sourceIssues targetIssues s) = Inr ?cs"
    using compareIssues_eq [of sourceIssues targetIssues s] by auto
  have p: "\<forall>c\<in>set ?cs. (targetIssue c \<noteq> None) =
        (issue_comparison.action c = Update \<or> issue_comparison.action c = Skip)"
    using spec_compareIssue_present by auto
  have q: "\<forall>c\<in>set ?cs. (issue_comparison.action c = Create) = (targetIssue c = None)"
    using spec_compareIssue_Create by auto
  have d: "(\<forall>a\<in>set sourceIssues. \<forall>t\<in>set targetIssues. title t \<noteq> title a) \<longrightarrow>
        (\<forall>c\<in>set ?cs. issue_comparison.action c = Create \<and> targetIssue c = None)"
    using spec_compareIssue_None spec_compareIssue_Create by auto
  from r p q d show ?thesis by blast
qed

theorem targetIssue_present_iff_update_or_skip_witness:
  "fst (compareIssues [bugA, bugB, bugC] [bugA_stale, bugC_same] ((), [])) =
     Inr [\<lparr>sourceIssue = bugA, targetIssue = Some bugA_stale, issue_comparison.action = Update\<rparr>,
          \<lparr>sourceIssue = bugB, targetIssue = None, issue_comparison.action = Create\<rparr>,
          \<lparr>sourceIssue = bugC, targetIssue = Some bugC_same, issue_comparison.action = Skip\<rparr>] \<and>
   fst (compareIssues [bugA, bugB] [bugC_same] ((), [])) =
     Inr [\<lparr>sourceIssue = bugA, targetIssue = None, issue_comparison.action = Create\<rparr>,
          \<lparr>sourceIssue = bugB, targetIssue = None, issue_comparison.action = Create\<rparr>]"
proof -
  obtain cs where cs: "fst (compareIssues [bugA, bugB, bugC] [bugA_stale, bugC_same] ((), [])) = Inr cs"
    and present: "\<forall>c\<in>set cs. (targetIssue c \<noteq> None) =
        (issue_comparison.action c = Update \<or> issue_comparison.action c = Skip)"
    using targetIssue_present_iff_update_or_skip
      [of "[bugA, bugB, bugC]" "[bugA_stale, bugC_same]" "((), [])"]
    by auto
  have no_overlap: "\<forall>a\<in>set [bugA, bugB]. \<forall>t\<in>set [bugC_same]. title t \<noteq> title a"
    by (simp add: bugA_def bugB_def bugC_same_def)
  obtain ds where ds: "fst (compareIssues [bugA, bugB] [bugC_same] ((), [])) = Inr ds"
    and creates: "\<forall>c\<in>set ds. issue_comparison.action c = Create \<and> targetIssue c = None"
    using targetIssue_present_iff_update_or_skip [of "[bugA, bugB]" "[bugC_same]" "((), [])"]
      no_overlap
    by auto
  have "fst (compareIssues [bugA, bugB, bugC] [bugA_stale, bugC_same] ((), [])) =
      Inr (map (spec_compareIssue [bugA_stale, bugC_same]) [bugA, bugB, bugC])"
    using compareIssues_eq [of "[bugA, bugB, bugC]" "[bugA_stale, bugC_same]" "((), [])"]
    by auto
  with cs have c: "cs = map (spec_compareIssue [bugA_stale, bugC_same]) [bugA, bugB, bugC]"
    by simp
  have "fst (compareIssues [bugA, bugB] [bugC_same] ((), [])) =
      Inr (map (spec_compareIssue [bugC_same]) [bugA, bugB])"
    using compareIssues_eq [of "[bugA, bugB]" "[bugC_same]" "((), [])"]
    by auto
  with ds have d: "ds = map (spec_compareIssue [bugC_same]) [bugA, bugB]"
    by simp
  from cs ds show ?thesis
    unfolding c d
    by (simp add: spec_compareIssue_def bugA_def bugB_def bugC_def bugA_stale_def bugC_same_def)
qed

text \<open>
  Claim C7. For two issues equal in title, body and state, the action is skip when the
  label sequences are equal and update otherwise, in particular when the labels are the
  same elements in another order: \<^const>\<open>arraysEqual\<close> holds only for lists of the same
  length with the same element at every index.
\<close>

theorem label_order_is_significant:
  assumes "title a = title b" and "issue.body a = issue.body b" and "state a = state b"
  shows "fst (compareIssues [a] [b] s) =
           Inr [\<lparr>sourceIssue = a, targetIssue = Some b,
                 issue_comparison.action = (if labels a = labels b then Skip else Update)\<rparr>] \<and>
         (mset (labels a) = mset (labels b) \<and> labels a \<noteq> labels b \<longrightarrow>
            fst (compareIssues [a] [b] s) =
              Inr [\<lparr>sourceIssue = a, targetIssue = Some b, issue_comparison.action = Update\<rparr>]) \<and>
         arraysEqual (labels a) (labels b) =
           (length (labels a) = length (labels b) \<and>
            (\<forall>i<length (labels a). labels a ! i = labels b ! i))"
proof -
  have "fst (compareIssues [a] [b] s) = Inr (map (spec_compareIssue [b]) [a])"
    using compareIssues_eq [of "[a]" "[b]" s] by auto
  with assms have "fst (compareIssues [a] [b] s) =
           Inr [\<lparr>sourceIssue = a, targetIssue = Some b,
                 issue_comparison.action = (if labels a = labels b then Skip else Update)\<rparr>]"
    by (simp add: spec_compareIssue_def)
  moreover have "arraysEqual (labels a) (labels b) =
           (length (labels a) = length (labels b) \<and>
            (\<forall>i<length (labels a). labels a ! i = labels b ! i))"
    unfolding arraysEqual_iff by (rule list_eq_iff_nth_eq)
  ultimately show ?thesis by simp
qed

theorem label_order_is_significant_witness:
  "mset (labels bugC) = mset (labels bugC_reordered) \<and>
   labels bugC \<noteq> labels bugC_reordered \<and>
   fst (compareIssues [bugC] [bugC_reordered] ((), [])) =
     Inr [\<lparr>sourceIssue = bugC, targetIssue = Some bugC_reordered,
           issue_comparison.action = Update\<rparr>] \<and>
   fst (compareIssues [bugC] [bugC_same] ((), [])) =
     Inr [\<lparr>sourceIssue = bugC, targetIssue = Some bugC_same, issue_comparison.action = Skip\<rparr>]"
proof -
  have t: "title bugC = title bugC_reordered" "issue.body bugC = issue.body bugC_reordered"
    "state bugC = state bugC_reordered"
    by (simp_all add: bugC_def bugC_reordered_def)
  have u: "title bugC = title bugC_same" "issue.body bugC = issue.body bugC_same"
    "state bugC = state bugC_same"
    by (simp_all add: bugC_def bugC_same_def)
  have l: "mset (labels bugC) = mset (labels bugC_reordered)" "labels bugC \<noteq> labels bugC_reordered"
    "labels bugC = labels bugC_same"
    by (simp_all add: bugC_def bugC_reordered_def bugC_same_def)
  from label_order_is_significant [OF t, of "((), [])"] label_order_is_significant [OF u, of "((), [])"] l
  show ?thesis by simp
qed

section \<open>The comment comparator\<close>

lemma openingOf_eq: "openingOf src = (if src = [] then None else Some (hd src))"
  by (cases src) (simp_all add: openingOf_def)

lemma closingOf_eq: "closingOf src = (if src = [] then None else Some (last src))"
  by (simp add: closingOf_def last_conv_nth)

lemma list_ex_body:
  "list_ex (\<lambda>c. comment.body c = b) tgt \<longleftrightarrow> \<not> (\<forall>c\<in>set tgt. comment.body c \<noteq> b)"
  by (simp add: list_ex_iff)

text \<open>
  Claim C5. \<^const>\<open>compareComments\<close> looks at the first and the last source comment only.
  The first gives a create entry exactly when it exists and no target comment has its
  body; the last gives one exactly when it is another object than the first and no
  target comment has its body. An empty thread gives no entry, a thread of one comment
  at most one, and no thread more than two.
\<close>

theorem compareComments_first_and_last_only:
  "compareComments sourceComments targetComments =
     (if sourceComments = [] then []
      else
        (if \<forall>c\<in>set targetComments. comment.body c \<noteq> comment.body (hd sourceComments)
         then [\<lparr>sourceComment = hd sourceComments, action = Create\<rparr>] else []) @
        (if oid (last sourceComments) \<noteq> oid (hd sourceComments) \<and>
            (\<forall>c\<in>set targetComments. comment.body c \<noteq> comment.body (last sourceComments))
         then [\<lparr>sourceComment = last sourceComments, action = Create\<rparr>] else [])) \<and>
   length (compareComments sourceComments targetComments) \<le> 2 \<and>
   (length sourceComments = 1 \<longrightarrow> length (compareComments sourceComments targetComments) \<le> 1) \<and>
   compareComments [] targetComments = []"
proof -
  have eq: "compareComments sourceComments targetComments =
     (if sourceComments = [] then []
      else
        (if \<forall>c\<in>set targetComments. comment.body c \<noteq> comment.body (hd sourceComments)
         then [\<lparr>sourceComment = hd sourceComments, action = Create\<rparr>] else []) @
        (if oid (last sourceComments) \<noteq> oid (hd sourceComments) \<and>
            (\<forall>c\<in>set targetComments. comment.body c \<noteq> comment.body (last sourceComments))
         then [\<lparr>sourceComment = last sourceComments, action = Create\<rparr>] else []))"
    by (simp add: compareComments_def openingOf_eq closingOf_eq list_ex_body Let_def)
  have two: "length (compareComments sourceComments targetComments) \<le> 2"
    unfolding eq by simp
  have one: "length sourceComments = 1 \<longrightarrow> length (compareComments sourceComments targetComments) \<le> 1"
  proof
    assume "length sourceComments = 1"
    then obtain c where "sourceComments = [c]"
      by (cases sourceComments) auto
    then show "length (compareComments sourceComments targetComments) \<le> 1"
      unfolding eq by simp
  qed
  have none: "compareComments [] targetComments = []"
    by (simp add: compareComments_def openingOf_def closingOf_def)
  from eq two one none show ?thesis by blast
qed

theorem compareComments_first_and_last_only_witness:
  "compareComments [comment_first, comment_middle, comment_last] [] =
     [\<lparr>sourceComment = comment_first, action = Create\<rparr>,
      \<lparr>sourceComment = comment_last, action = Create\<rparr>] \<and>
   compareComments [comment_first, comment_middle, comment_last] [\<lparr>oid = 7, body = ''last''\<rparr>] =
     [\<lparr>sourceComment = comment_first, action = Create\<rparr>] \<and>
   compareComments [comment_first] [] = [\<lparr>sourceComment = comment_first, action = Create\<rparr>] \<and>
   compareComments [comment_first, comment_middle, comment_first] [] =
     [\<lparr>sourceComment = comment_first, action = Create\<rparr>]"
  using compareComments_first_and_last_only [of "[comment_first, comment_middle, comment_last]" "[]"]
    compareComments_first_and_last_only
      [of "[comment_first, comment_middle, comment_last]" "[\<lparr>oid = 7, body = ''last''\<rparr>]"]
    compareComments_first_and_last_only [of "[comment_first]" "[]"]
    compareComments_first_and_last_only [of "[comment_first, comment_middle, comment_first]" "[]"]
  by (simp add: comment_first_def comment_middle_def comment_last_def)

section \<open>Sequencing, catching, looping\<close>

lemma try_catch_log_total:
  "fst (try_catch m (\<lambda>e. core_log lv (g e)) s) = Inr ()"
  by (simp add: try_catch_def core_log_def split: prod.splits sum.splits)

lemma try_catch_log_Inl:
  "m s = (Inl e, s') \<Longrightarrow>
     try_catch m (\<lambda>e. core_log lv (g e)) s = (Inr (), (fst s', snd s' @ [Log lv (g e)]))"
  by (simp add: try_catch_def core_log_def)

lemma try_catch_Inr:
  "m s = (Inr x, s') \<Longrightarrow> try_catch m h s = (Inr x, s')"
  by (simp add: try_catch_def)

lemma forEach_step:
  assumes "\<And>x s. fst (f x s) = Inr ()"
  shows "forEach (x # xs) f s = forEach xs f (snd (f x s))"
proof -
  obtain r s' where fx: "f x s = (r, s')"
    by (cases "f x s")
  with assms [of x s] have "r = Inr ()"
    by simp
  with fx show ?thesis
    by (simp add: seq_def)
qed

lemma forEach_total:
  assumes "\<And>x s. fst (f x s) = Inr ()"
  shows "fst (forEach xs f s) = Inr ()"
proof (induction xs arbitrary: s)
  case Nil
  show ?case by (simp add: ret_def)
next
  case (Cons x xs)
  show ?case
    unfolding forEach_step [of f, OF assms] by (rule Cons.IH)
qed

lemma forEach_append:
  assumes "\<And>x s. fst (f x s) = Inr ()"
  shows "forEach (xs @ ys) f s = forEach ys f (snd (forEach xs f s))"
proof (induction xs arbitrary: s)
  case Nil
  show ?case by (simp add: ret_def)
next
  case (Cons x xs)
  show ?case
    using Cons.IH [of "snd (f x s)"] by (simp only: append_Cons forEach_step [of f, OF assms])
qed

lemma syncIssueComments_item_total:
  "fst (syncIssueComments_item target tn cc s) = Inr ()"
  unfolding syncIssueComments_item_def by (rule try_catch_log_total)

lemma syncIssueComments_total:
  "fst (syncIssueComments source target sn tn s) = Inr ()"
  unfolding syncIssueComments_def by (rule try_catch_log_total)

lemma syncIssues_item_total:
  "fst (syncIssues_item source target c s) = Inr ()"
  unfolding syncIssues_item_def by (rule try_catch_log_total)

section \<open>The reconciliation pass: failures\<close>

text \<open>
  Claim C3. When fetching the source issues throws, or fetching the target issues
  throws after the source issues were fetched, the pass writes one error line and
  throws the same value to its caller. The only client calls up to that point are the
  fetches: no issue was created or updated and no comment was created.
\<close>

theorem syncIssues_fetch_failure_is_fatal:
  "(client_syncIssues source (fst s) = (Inl e, w1) \<longrightarrow>
      syncIssues source target s =
        (Inl e, (w1, snd s @ [Call Source SyncIssues,
                              Log Error (''Issue synchronization failed: '' @ errorText e)]))) \<and>
   (client_syncIssues source (fst s) = (Inr sourceIssues, w1) \<and>
    client_syncIssues target w1 = (Inl e, w2) \<longrightarrow>
      syncIssues source target s =
        (Inl e, (w2, snd s @ [Call Source SyncIssues, Call Target SyncIssues,
                              Log Error (''Issue synchronization failed: '' @ errorText e)])))"
  by (simp add: syncIssues_def try_catch_def seq_def invoke_def throw_def core_log_def)

theorem syncIssues_fetch_failure_is_fatal_witness:
  "syncIssues scenario_source unreachable_target ([bugA_stale], []) =
     (Inl (JsError ''unreachable''),
      ([bugA_stale],
       [Call Source SyncIssues, Call Target SyncIssues,
        Log Error ''Issue synchronization failed: unreachable''])) \<and>
   syncIssues unreachable_source scenario_target ([bugA_stale], []) =
     (Inl (JsValue ''timeout''),
      ([bugA_stale],
       [Call Source SyncIssues, Log Error ''Issue synchronization failed: timeout'']))"
proof -
  have a: "client_syncIssues scenario_source (fst ([bugA_stale], [])) = (Inr [bugA, bugB], [bugA_stale])"
    by (simp add: scenario_source_def)
  have b: "client_syncIssues unreachable_target [bugA_stale] = (Inl (JsError ''unreachable''), [bugA_stale])"
    by (simp add: unreachable_target_def scenario_target_def)
  have c: "client_syncIssues unreachable_source (fst ([bugA_stale], [])) = (Inl (JsValue ''timeout''), [bugA_stale])"
    by (simp add: unreachable_source_def scenario_source_def)
  from syncIssues_fetch_failure_is_fatal
        [of scenario_source "([bugA_stale], [])" "JsError ''unreachable''" "[bugA_stale]"
            unreachable_target "[bugA, bugB]" "[bugA_stale]"]
       syncIssues_fetch_failure_is_fatal
        [of unreachable_source "([bugA_stale], [])" "JsValue ''timeout''" "[bugA_stale]"
            scenario_target "[]" "[]"]
       a b c
  show ?thesis by simp
qed

section \<open>The reconciliation pass: one comparison after the other\<close>

lemma calls_append: "calls (xs @ ys) = calls xs @ calls ys"
  by (induction xs rule: calls.induct) simp_all

lemma calls_debug: "calls (map (Log lv) msgs) = []"
  by (induction msgs) simp_all

lemma forEach_items_run:
  "forEach cs (syncIssues_item source target) s =
     (Inr (), snd (forEach cs (syncIssues_item source target) s))"
  using forEach_total [of "syncIssues_item source target" cs s, OF syncIssues_item_total]
  by (simp add: prod_eq_iff)

lemma logSyncPlan_run:
  "\<exists>plan. logSyncPlan cs t = (Inr (), (fst t, snd t @ [Log Info plan]))"
  by (simp add: logSyncPlan_def core_log_def Let_def)

lemma syncIssues_success:
  assumes "client_syncIssues source (fst s) = (Inr sourceIssues, w1)"
    and "client_syncIssues target w1 = (Inr targetIssues, w2)"
  shows "\<exists>s3. fst s3 = w2 \<and>
           calls (snd s3) = calls (snd s) @ [(Source, SyncIssues), (Target, SyncIssues)] \<and>
           syncIssues source target s =
             (Inr (),
              (fst (snd (forEach (map (spec_compareIssue targetIssues) sourceIssues)
                          (syncIssues_item source target) s3)),
               snd (snd (forEach (map (spec_compareIssue targetIssues) sourceIssues)
                          (syncIssues_item source target) s3)) @
               [Log Info (glyph_check @ '' Issue synchronization completed'')]))"
proof -
  let ?cs = "map (spec_compareIssue targetIssues) sourceIssues"
  let ?s2 = "(w2, snd s @ [Call Source SyncIssues] @ [Call Target SyncIssues])"
  obtain msgs where cmp: "compareIssues sourceIssues targetIssues ?s2 =
      (Inr ?cs, (fst ?s2, snd ?s2 @ map (Log Debug) msgs))"
    using compareIssues_eq [of sourceIssues targetIssues ?s2] by blast
  let ?s2' = "(w2, snd s @ [Call Source SyncIssues] @ [Call Target SyncIssues] @ map (Log Debug) msgs @
       [Log Info (''\<newline>'' @ glyph_magnifier @ '' Issue Sync Analysis:'')])"
  obtain plan where plan: "logSyncPlan ?cs ?s2' = (Inr (), (fst ?s2', snd ?s2' @ [Log Info plan]))"
    using logSyncPlan_run [of ?cs ?s2'] by blast
  let ?s3 = "(w2, snd s @ [Call Source SyncIssues] @ [Call Target SyncIssues] @ map (Log Debug) msgs @
       [Log Info (''\<newline>'' @ glyph_magnifier @ '' Issue Sync Analysis:'')] @ [Log Info plan])"
  define s4 where "s4 = snd (forEach ?cs (syncIssues_item source target) ?s3)"
  have loop: "forEach ?cs (syncIssues_item source target) ?s3 = (Inr (), s4)"
    unfolding s4_def by (rule forEach_items_run)
  have "syncIssues source target s =
      (Inr (), (fst s4, snd s4 @ [Log Info (glyph_check @ '' Issue synchronization completed'')]))"
    using assms cmp loop plan
    by (simp add: syncIssues_def try_catch_def seq_def invoke_def core_log_def)
  then have "syncIssues source target s =
      (Inr (), (fst (snd (forEach ?cs (syncIssues_item source target) ?s3)),
                snd (snd (forEach ?cs (syncIssues_item source target) ?s3)) @
                [Log Info (glyph_check @ '' Issue synchronization completed'')]))"
    unfolding s4_def .
  moreover have "calls (snd ?s3) = calls (snd s) @ [(Source, SyncIssues), (Target, SyncIssues)]"
    by (simp add: calls_append calls_debug)
  ultimately show ?thesis
    by (intro exI [of _ ?s3]) simp
qed

section \<open>Events only grow\<close>

lemma grows_seq:
  assumes "\<And>s. prefix (snd s) (snd (snd (m s)))"
    and "\<And>x s. prefix (snd s) (snd (snd (f x s)))"
  shows "prefix (snd s) (snd (snd (seq m f s)))"
proof -
  obtain r s' where Pair: "m s = (r, s')"
    by (cases "m s") auto
  show ?thesis
  proof (cases r)
    case (Inl e)
    with Pair assms(1) [of s] show ?thesis
      by (simp add: seq_def)
  next
    case (Inr x)
    with Pair assms(1) [of s] assms(2) [of s' x] show ?thesis
      by (auto simp: seq_def intro: prefix_order.trans)
  qed
qed

lemma grows_try_catch:
  assumes "\<And>s. prefix (snd s) (snd (snd (m s)))"
    and "\<And>e s. prefix (snd s) (snd (snd (h e s)))"
  shows "prefix (snd s) (snd (snd (try_catch m h s)))"
proof -
  obtain r s' where Pair: "m s = (r, s')"
    by (cases "m s") auto
  show ?thesis
  proof (cases r)
    case (Inl e)
    with Pair assms(1) [of s] assms(2) [of s' e] show ?thesis
      by (auto simp: try_catch_def intro: prefix_order.trans)
  next
    case (Inr x)
    with Pair assms(1) [of s] show ?thesis
      by (simp add: try_catch_def)
  qed
qed

lemma grows_core_log: "prefix (snd s) (snd (snd (core_log lv msg s)))"
  by (simp add: core_log_def)

lemma grows_invoke: "prefix (snd s) (snd (snd (invoke sd c f s)))"
  by (simp add: invoke_def split: prod.splits)

lemma grows_ret: "prefix (snd s) (snd (snd (ret x s)))"
  by (simp add: ret_def)

lemma grows_forEach:
  assumes "\<And>x s. prefix (snd s) (snd (snd (f x s)))"
  shows "prefix (snd s) (snd (snd (forEach xs f s)))"
proof (induction xs arbitrary: s)
  case Nil
  show ?case by (simp add: ret_def)
next
  case (Cons x xs)
  show ?case
    unfolding forEach.simps
    by (rule grows_seq) (rule assms, rule Cons.IH)
qed

lemma grows_createComment: "prefix (snd s) (snd (snd (createComment target n cc s)))"
  unfolding createComment_def
  by (intro grows_seq grows_core_log grows_invoke)

lemma grows_syncIssueComments_item:
  "prefix (snd s) (snd (snd (syncIssueComments_item target n cc s)))"
  unfolding syncIssueComments_item_def
  by (rule grows_try_catch) (simp_all add: grows_createComment grows_ret grows_core_log)

lemma grows_syncIssueComments:
  "prefix (snd s) (snd (snd (syncIssueComments source target sn tn s)))"
  unfolding syncIssueComments_def
  by (intro grows_try_catch grows_seq grows_invoke grows_forEach grows_syncIssueComments_item
      grows_core_log)

section \<open>One create\<close>

lemma prepareSourceLink_run:
  "client_getRepoInfo source (fst s) = (Inr info, w1) \<Longrightarrow>
     prepareSourceLink source i s =
       (Inr (spec_backlink (url info) i), (w1, snd s @ [Call Source GetRepoInfo]))"
  by (simp add: prepareSourceLink_def spec_backlink_def seq_def invoke_def ret_def)

lemma createIssue_run:
  "createIssue target c s =
     (case client_createIssue target (sourceIssue c) (fst s) of
        (Inl e, w) \<Rightarrow>
          (Inl e,
           (w, snd s @
               [Log Info (glyph_memo @ '' Creating issue '' @ [CHR 0x22] @ title (sourceIssue c) @
                          [CHR 0x22]),
                Call Target (CreateIssue (sourceIssue c))]))
      | (Inr u, w) \<Rightarrow>
          (Inr (),
           (w, snd s @
               [Log Info (glyph_memo @ '' Creating issue '' @ [CHR 0x22] @ title (sourceIssue c) @
                          [CHR 0x22]),
                Call Target (CreateIssue (sourceIssue c)),
                Log Info (glyph_check @ '' Created issue '' @ [CHR 0x22] @ title (sourceIssue c) @
                          [CHR 0x22])])))"
  by (simp add: createIssue_def seq_def core_log_def invoke_def split: prod.splits sum.splits)

lemma switch_create:
  assumes "issue_comparison.action c = Create"
    and "client_getRepoInfo source (fst s) = (Inr info, w1)"
  shows "syncIssues_switch source target c s =
     createIssue target
       \<lparr>sourceIssue =
          (sourceIssue c)
            \<lparr>issue.body :=
               Str (orEmpty (issue.body (sourceIssue c)) @ ''\<newline>\<newline>'' @
                    spec_backlink (url info) (sourceIssue c))\<rparr>,
        targetIssue = None, issue_comparison.action = Create\<rparr>
       (w1, snd s @ [Call Source GetRepoInfo])"
  using assms by (simp add: syncIssues_switch_def seq_def prepareSourceLink_run)

lemma switch_create_no_link:
  assumes "issue_comparison.action c = Create"
    and "client_getRepoInfo source (fst s) = (Inl e, w1)"
  shows "syncIssues_switch source target c s = (Inl e, (w1, snd s @ [Call Source GetRepoInfo]))"
  using assms by (simp add: syncIssues_switch_def seq_def prepareSourceLink_def invoke_def)

lemma item_after_switch:
  "syncIssues_item source target c s =
     (case syncIssues_switch source target c s of
        (Inl e, s1) \<Rightarrow>
          (Inr (),
           (fst s1, snd s1 @
              [Log Warning (''Failed to process issue '' @ [CHR 0x22] @ title (sourceIssue c) @
                            [CHR 0x22] @ '': '' @ errorText e)]))
      | (Inr u, s1) \<Rightarrow>
          (case targetIssue c of
             None \<Rightarrow> (Inr (), s1)
           | Some t \<Rightarrow> syncIssueComments source target (number (sourceIssue c)) (number t) s1))"
proof -
  obtain r s1 where Pair: "syncIssues_switch source target c s = (r, s1)"
    by (cases "syncIssues_switch source target c s") auto
  show ?thesis
  proof (cases r)
    case (Inl e)
    with Pair show ?thesis
      by (simp add: syncIssues_item_def syncIssues_try_def try_catch_def seq_def core_log_def)
  next
    case (Inr u)
    show ?thesis
    proof (cases "targetIssue c")
      case None
      with Pair Inr show ?thesis
        by (simp add: syncIssues_item_def syncIssues_try_def try_catch_def seq_def ret_def)
    next
      case (Some t)
      obtain s2 where "syncIssueComments source target (number (sourceIssue c)) (number t) s1 = (Inr (), s2)"
        using syncIssueComments_total [of source target "number (sourceIssue c)" "number t" s1]
        by (cases "syncIssueComments source target (number (sourceIssue c)) (number t) s1") simp
      with Pair Inr Some show ?thesis
        by (simp add: syncIssues_item_def syncIssues_try_def try_catch_def seq_def)
    qed
  qed
qed

lemma grows_item_after_switch:
  assumes "syncIssues_switch source target c s = (r, s1)"
  shows "prefix (snd s1) (snd (snd (syncIssues_item source target c s)))"
proof (cases r)
  case (Inl e)
  with assms show ?thesis
    by (simp add: item_after_switch)
next
  case (Inr u)
  with assms show ?thesis
    by (cases "targetIssue c") (simp_all add: item_after_switch grows_syncIssueComments)
qed

text \<open>
  Claim C2. Processing one comparison never throws: whatever is thrown while creating,
  updating or synchronising comments is caught and written as a warning, and the loop
  goes on with the comparisons that follow, from the state the failed one left. A
  create among them is attempted whenever the source client gives its repository
  descriptor. When both fetches succeed the pass returns to its caller without
  throwing, whatever happened to the single comparisons.

  The failures are stated on the clients' own answers: a repository descriptor that
  cannot be read, a rejected create and a rejected update each end the comparison with
  the warning that names the issue and the thrown value; a failed fetch of comments on
  either side and a rejected comment each give the warning of the comment
  synchronisation.
\<close>

theorem syncIssues_isolates_item_failures:
  "fst (syncIssues_item source target c s) = Inr () \<and>
   (syncIssues_try source target c s = (Inl e, s') \<longrightarrow>
      syncIssues_item source target c s =
        (Inr (),
         (fst s', snd s' @
            [Log Warning (''Failed to process issue '' @ [CHR 0x22] @ title (sourceIssue c) @
                          [CHR 0x22] @ '': '' @ errorText e)]))) \<and>
   forEach (cs @ c # cs') (syncIssues_item source target) s =
     forEach cs' (syncIssues_item source target)
       (snd (syncIssues_item source target c
              (snd (forEach cs (syncIssues_item source target) s)))) \<and>
   (issue_comparison.action c = Create \<and> client_getRepoInfo source (fst s) = (Inr info, w) \<longrightarrow>
      (\<exists>payload. title payload = title (sourceIssue c) \<and>
         prefix (snd s @
                 [Call Source GetRepoInfo,
                  Log Info (glyph_memo @ '' Creating issue '' @ [CHR 0x22] @
                            title (sourceIssue c) @ [CHR 0x22]),
                  Call Target (CreateIssue payload)])
           (snd (snd (syncIssues_item source target c s))))) \<and>
   (client_syncIssues source (fst s) = (Inr sourceIssues, w) \<and>
    client_syncIssues target w = (Inr targetIssues, w') \<longrightarrow>
      (\<exists>s3. fst s3 = w' \<and>
         calls (snd s3) = calls (snd s) @ [(Source, SyncIssues), (Target, SyncIssues)] \<and>
         syncIssues source target s =
           (Inr (),
            (fst (snd (forEach (map (spec_compareIssue targetIssues) sourceIssues)
                        (syncIssues_item source target) s3)),
             snd (snd (forEach (map (spec_compareIssue targetIssues) sourceIssues)
                        (syncIssues_item source target) s3)) @
             [Log Info (glyph_check @ '' Issue synchronization completed'')])))) \<and>
   (issue_comparison.action c = Create \<and> client_getRepoInfo source (fst s) = (Inl e, w) \<longrightarrow>
      syncIssues_item source target c s =
        (Inr (),
         (w, snd s @
            [Call Source GetRepoInfo,
             Log Warning (''Failed to process issue '' @ [CHR 0x22] @ title (sourceIssue c) @
                          [CHR 0x22] @ '': '' @ errorText e)]))) \<and>
   (issue_comparison.action c = Create \<and> client_getRepoInfo source (fst s) = (Inr info, w) \<and>
    client_createIssue target
      ((sourceIssue c)
         \<lparr>issue.body :=
            Str (orEmpty (issue.body (sourceIssue c)) @ ''\<newline>\<newline>'' @
                 spec_backlink (url info) (sourceIssue c))\<rparr>) w = (Inl e, w') \<longrightarrow>
      syncIssues_item source target c s =
        (Inr (),
         (w', snd s @
            [Call Source GetRepoInfo,
             Log Info (glyph_memo @ '' Creating issue '' @ [CHR 0x22] @ title (sourceIssue c) @
                       [CHR 0x22]),
             Call Target
               (CreateIssue
                 ((sourceIssue c)
                    \<lparr>issue.body :=
                       Str (orEmpty (issue.body (sourceIssue c)) @ ''\<newline>\<newline>'' @
                            spec_backlink (url info) (sourceIssue c))\<rparr>)),
             Log Warning (''Failed to process issue '' @ [CHR 0x22] @ title (sourceIssue c) @
                          [CHR 0x22] @ '': '' @ errorText e)]))) \<and>
   (issue_comparison.action c = Update \<and> targetIssue c = Some t \<and>
    client_updateIssue target (number t) (sourceIssue c) (fst s) = (Inl e, w) \<longrightarrow>
      syncIssues_item source target c s =
        (Inr (),
         (w, snd s @
            [Log Info (glyph_memo @ '' Updating issue '' @ [CHR 0x22] @ title (sourceIssue c) @
                       [CHR 0x22]),
             Call Target (UpdateIssue (number t) (sourceIssue c)),
             Log Warning (''Failed to process issue '' @ [CHR 0x22] @ title (sourceIssue c) @
                          [CHR 0x22] @ '': '' @ errorText e)]))) \<and>
   (syncIssues_switch source target c s = (Inr u, s') \<and> targetIssue c = Some t \<and>
    client_getIssueComments source (number (sourceIssue c)) (fst s') = (Inl e, w) \<longrightarrow>
      syncIssues_item source target c s =
        (Inr (),
         (w, snd s' @
            [Call Source (GetIssueComments (number (sourceIssue c))),
             Log Warning (''Failed to sync comments for issue #'' @
                          numberToString (number (sourceIssue c)) @ '': '' @ errorText e)]))) \<and>
   (syncIssues_switch source target c s = (Inr u, s') \<and> targetIssue c = Some t \<and>
    client_getIssueComments source (number (sourceIssue c)) (fst s') = (Inr scs, w) \<and>
    client_getIssueComments target (number t) w = (Inl e, w') \<longrightarrow>
      syncIssues_item source target c s =
        (Inr (),
         (w', snd s' @
            [Call Source (GetIssueComments (number (sourceIssue c))),
             Call Target (GetIssueComments (number t)),
             Log Warning (''Failed to sync comments for issue #'' @
                          numberToString (number (sourceIssue c)) @ '': '' @ errorText e)]))) \<and>
   (comment_comparison.action cc = Create \<and>
    client_createIssueComment target tn (sourceComment cc) (fst s) = (Inl e, w) \<longrightarrow>
      syncIssueComments_item target tn cc s =
        (Inr (),
         (w, snd s @
            [Log Info (glyph_speech @ '' Creating comment in issue #'' @ numberToString tn),
             Call Target (CreateIssueComment tn (sourceComment cc)),
             Log Warning (''Failed to sync comment in issue #'' @ numberToString tn @ '': '' @
                          errorText e)])))"
proof -
  let ?item = "syncIssues_item source target"
  have caught: "syncIssues_try source target c s = (Inl e, s') \<longrightarrow>
      ?item c s =
        (Inr (),
         (fst s', snd s' @
            [Log Warning (''Failed to process issue '' @ [CHR 0x22] @ title (sourceIssue c) @
                          [CHR 0x22] @ '': '' @ errorText e)]))"
    by (simp add: syncIssues_item_def try_catch_def core_log_def)
  have "forEach (cs @ c # cs') ?item s = forEach (c # cs') ?item (snd (forEach cs ?item s))"
    by (rule forEach_append) (rule syncIssues_item_total)
  also have "\<dots> = forEach cs' ?item (snd (?item c (snd (forEach cs ?item s))))"
    by (rule forEach_step) (rule syncIssues_item_total)
  finally have proceeds: "forEach (cs @ c # cs') ?item s =
      forEach cs' ?item (snd (?item c (snd (forEach cs ?item s))))" .
  have attempted: "issue_comparison.action c = Create \<and>
      client_getRepoInfo source (fst s) = (Inr info, w) \<longrightarrow>
      (\<exists>payload. title payload = title (sourceIssue c) \<and>
         prefix (snd s @
                 [Call Source GetRepoInfo,
                  Log Info (glyph_memo @ '' Creating issue '' @ [CHR 0x22] @
                            title (sourceIssue c) @ [CHR 0x22]),
                  Call Target (CreateIssue payload)])
           (snd (snd (?item c s))))"
  proof
    assume a: "issue_comparison.action c = Create \<and>
      client_getRepoInfo source (fst s) = (Inr info, w)"
    define payload where "payload =
      (sourceIssue c)
        \<lparr>issue.body :=
           Str (orEmpty (issue.body (sourceIssue c)) @ ''\<newline>\<newline>'' @
                spec_backlink (url info) (sourceIssue c))\<rparr>"
    let ?evs = "snd s @
                 [Call Source GetRepoInfo,
                  Log Info (glyph_memo @ '' Creating issue '' @ [CHR 0x22] @
                            title (sourceIssue c) @ [CHR 0x22]),
                  Call Target (CreateIssue payload)]"
    obtain r sw where sw: "syncIssues_switch source target c s = (r, sw)"
      by (cases "syncIssues_switch source target c s") auto
    from a have "syncIssues_switch source target c s =
        createIssue target
          \<lparr>sourceIssue = payload, targetIssue = None, issue_comparison.action = Create\<rparr>
          (w, snd s @ [Call Source GetRepoInfo])"
      unfolding payload_def by (simp add: switch_create)
    with sw have "prefix ?evs (snd sw)"
      by (auto simp: createIssue_run payload_def split: prod.splits sum.splits)
    moreover have "prefix (snd sw) (snd (snd (?item c s)))"
      using sw by (rule grows_item_after_switch)
    ultimately have "prefix ?evs (snd (snd (?item c s)))"
      by (rule prefix_order.trans)
    moreover have "title payload = title (sourceIssue c)"
      by (simp add: payload_def)
    ultimately show "\<exists>payload. title payload = title (sourceIssue c) \<and>
         prefix (snd s @
                 [Call Source GetRepoInfo,
                  Log Info (glyph_memo @ '' Creating issue '' @ [CHR 0x22] @
                            title (sourceIssue c) @ [CHR 0x22]),
                  Call Target (CreateIssue payload)])
           (snd (snd (?item c s)))"
      by blast
  qed
  have passes: "client_syncIssues source (fst s) = (Inr sourceIssues, w) \<and>
    client_syncIssues target w = (Inr targetIssues, w') \<longrightarrow>
      (\<exists>s3. fst s3 = w' \<and>
         calls (snd s3) = calls (snd s) @ [(Source, SyncIssues), (Target, SyncIssues)] \<and>
         syncIssues source target s =
           (Inr (),
            (fst (snd (forEach (map (spec_compareIssue targetIssues) sourceIssues)
                        (syncIssues_item source target) s3)),
             snd (snd (forEach (map (spec_compareIssue targetIssues) sourceIssues)
                        (syncIssues_item source target) s3)) @
             [Log Info (glyph_check @ '' Issue synchronization completed'')])))"
    using syncIssues_success [of source s sourceIssues w target targetIssues w'] by blast
  have no_link: "issue_comparison.action c = Create \<and>
      client_getRepoInfo source (fst s) = (Inl e, w) \<longrightarrow>
      ?item c s =
        (Inr (),
         (w, snd s @
            [Call Source GetRepoInfo,
             Log Warning (''Failed to process issue '' @ [CHR 0x22] @ title (sourceIssue c) @
                          [CHR 0x22] @ '': '' @ errorText e)]))"
    by (simp add: item_after_switch switch_create_no_link)
  have no_create: "issue_comparison.action c = Create \<and>
      client_getRepoInfo source (fst s) = (Inr info, w) \<and>
      client_createIssue target
        ((sourceIssue c)
           \<lparr>issue.body :=
              Str (orEmpty (issue.body (sourceIssue c)) @ ''\<newline>\<newline>'' @
                   spec_backlink (url info) (sourceIssue c))\<rparr>) w = (Inl e, w') \<longrightarrow>
      ?item c s =
        (Inr (),
         (w', snd s @
            [Call Source GetRepoInfo,
             Log Info (glyph_memo @ '' Creating issue '' @ [CHR 0x22] @ title (sourceIssue c) @
                       [CHR 0x22]),
             Call Target
               (CreateIssue
                 ((sourceIssue c)
                    \<lparr>issue.body :=
                       Str (orEmpty (issue.body (sourceIssue c)) @ ''\<newline>\<newline>'' @
                            spec_backlink (url info) (sourceIssue c))\<rparr>)),
             Log Warning (''Failed to process issue '' @ [CHR 0x22] @ title (sourceIssue c) @
                          [CHR 0x22] @ '': '' @ errorText e)]))"
    by (simp add: item_after_switch switch_create createIssue_run)
  have no_update: "issue_comparison.action c = Update \<and> targetIssue c = Some t \<and>
      client_updateIssue target (number t) (sourceIssue c) (fst s) = (Inl e, w) \<longrightarrow>
      ?item c s =
        (Inr (),
         (w, snd s @
            [Log Info (glyph_memo @ '' Updating issue '' @ [CHR 0x22] @ title (sourceIssue c) @
                       [CHR 0x22]),
             Call Target (UpdateIssue (number t) (sourceIssue c)),
             Log Warning (''Failed to process issue '' @ [CHR 0x22] @ title (sourceIssue c) @
                          [CHR 0x22] @ '': '' @ errorText e)]))"
    by (simp add: item_after_switch syncIssues_switch_def updateIssue_def seq_def core_log_def
        invoke_def)
  have no_source_comments: "syncIssues_switch source target c s = (Inr u, s') \<and>
      targetIssue c = Some t \<and>
      client_getIssueComments source (number (sourceIssue c)) (fst s') = (Inl e, w) \<longrightarrow>
      ?item c s =
        (Inr (),
         (w, snd s' @
            [Call Source (GetIssueComments (number (sourceIssue c))),
             Log Warning (''Failed to sync comments for issue #'' @
                          numberToString (number (sourceIssue c)) @ '': '' @ errorText e)]))"
    by (simp add: item_after_switch syncIssueComments_def try_catch_def seq_def invoke_def
        core_log_def)
  have no_target_comments: "syncIssues_switch source target c s = (Inr u, s') \<and>
      targetIssue c = Some t \<and>
      client_getIssueComments source (number (sourceIssue c)) (fst s') = (Inr scs, w) \<and>
      client_getIssueComments target (number t) w = (Inl e, w') \<longrightarrow>
      ?item c s =
        (Inr (),
         (w', snd s' @
            [Call Source (GetIssueComments (number (sourceIssue c))),
             Call Target (GetIssueComments (number t)),
             Log Warning (''Failed to sync comments for issue #'' @
                          numberToString (number (sourceIssue c)) @ '': '' @ errorText e)]))"
    by (simp add: item_after_switch syncIssueComments_def try_catch_def seq_def invoke_def
        core_log_def)
  have no_comment: "comment_comparison.action cc = Create \<and>
      client_createIssueComment target tn (sourceComment cc) (fst s) = (Inl e, w) \<longrightarrow>
      syncIssueComments_item target tn cc s =
        (Inr (),
         (w, snd s @
            [Log Info (glyph_speech @ '' Creating comment in issue #'' @ numberToString tn),
             Call Target (CreateIssueComment tn (sourceComment cc)),
             Log Warning (''Failed to sync comment in issue #'' @ numberToString tn @ '': '' @
                          errorText e)]))"
    by (simp add: syncIssueComments_item_def createComment_def try_catch_def seq_def invoke_def
        core_log_def)
  from syncIssues_item_total [of source target c s] caught proceeds attempted passes
    no_link no_create no_update no_source_comments no_target_comments no_comment
  show ?thesis
    by (intro conjI)
qed

theorem syncIssues_isolates_item_failures_witness:
  \<open>fst (syncIssues scenario_source scenario_target ([bugA_stale], [])) = Inr () \<and>
   calls (snd (snd (syncIssues scenario_source scenario_target ([bugA_stale], [])))) =
     [(Source, SyncIssues), (Target, SyncIssues), (Target, UpdateIssue 7 bugA),
      (Source, GetRepoInfo),
      (Target, CreateIssue
         (bugB\<lparr>issue.body :=
            Str ''\<newline>\<newline>**Original Issue**: [Bug B](https://src.example/o/r/issues/2)''\<rparr>))] \<and>
   warnings (snd (snd (syncIssues scenario_source scenario_target ([bugA_stale], [])))) =
     [''Failed to process issue "Bug A": update rejected''] \<and>
   fst (snd (syncIssues scenario_source scenario_target ([bugA_stale], []))) =
     [bugA_stale,
      bugB\<lparr>issue.body :=
        Str ''\<newline>\<newline>**Original Issue**: [Bug B](https://src.example/o/r/issues/2)''\<rparr>] \<and>
   syncIssues_item scenario_source rejecting_target
     \<lparr>sourceIssue = bugB, targetIssue = None, issue_comparison.action = Create\<rparr>
     ([bugA_stale], []) =
     (Inr (),
      ([bugA_stale],
       [Call Source GetRepoInfo,
        Log Info (glyph_memo @ '' Creating issue "Bug B"''),
        Call Target (CreateIssue
          (bugB\<lparr>issue.body :=
             Str ''\<newline>\<newline>**Original Issue**: [Bug B](https://src.example/o/r/issues/2)''\<rparr>)),
        Log Warning ''Failed to process issue "Bug B": create rejected''])) \<and>
   fst (syncIssues scenario_source rejecting_target ([bugA_stale], [])) = Inr () \<and>
   calls (snd (snd (syncIssues scenario_source rejecting_target ([bugA_stale], [])))) =
     [(Source, SyncIssues), (Target, SyncIssues), (Target, UpdateIssue 7 bugA),
      (Source, GetRepoInfo),
      (Target, CreateIssue
         (bugB\<lparr>issue.body :=
            Str ''\<newline>\<newline>**Original Issue**: [Bug B](https://src.example/o/r/issues/2)''\<rparr>))] \<and>
   warnings (snd (snd (syncIssues scenario_source rejecting_target ([bugA_stale], [])))) =
     [''Failed to process issue "Bug A": update rejected'',
      ''Failed to process issue "Bug B": create rejected''] \<and>
   fst (snd (syncIssues scenario_source rejecting_target ([bugA_stale], []))) = [bugA_stale] \<and>
   fst (syncIssues descriptorless_source scenario_target ([bugA_stale], [])) = Inr () \<and>
   calls (snd (snd (syncIssues descriptorless_source scenario_target ([bugA_stale], [])))) =
     [(Source, SyncIssues), (Target, SyncIssues), (Target, UpdateIssue 7 bugA),
      (Source, GetRepoInfo)] \<and>
   warnings (snd (snd (syncIssues descriptorless_source scenario_target ([bugA_stale], [])))) =
     [''Failed to process issue "Bug A": update rejected'',
      ''Failed to process issue "Bug B": no descriptor'']\<close>
proof -
  let ?s0 = "([bugA_stale], []) :: issue list st"
  let ?b = "\<lparr>sourceIssue = bugB, targetIssue = None, issue_comparison.action = Create\<rparr>"
  let ?payload = "bugB\<lparr>issue.body :=
      Str ''\<newline>\<newline>**Original Issue**: [Bug B](https://src.example/o/r/issues/2)''\<rparr>"
  note pass = syncIssues_isolates_item_failures
    [THEN conjunct2, THEN conjunct2, THEN conjunct2, THEN conjunct2, THEN conjunct1, rule_format]
  note failed_create = syncIssues_isolates_item_failures
    [THEN conjunct2, THEN conjunct2, THEN conjunct2, THEN conjunct2, THEN conjunct2,
     THEN conjunct2, THEN conjunct1, rule_format]
  have a: "client_syncIssues scenario_source (fst ?s0) = (Inr [bugA, bugB], [bugA_stale])"
    by (simp add: scenario_source_def)
  have a': "client_syncIssues descriptorless_source (fst ?s0) = (Inr [bugA, bugB], [bugA_stale])"
    by (simp add: descriptorless_source_def scenario_source_def)
  have b: "client_syncIssues scenario_target [bugA_stale] = (Inr [bugA_stale], [bugA_stale])"
    by (simp add: scenario_target_def)
  have b': "client_syncIssues rejecting_target [bugA_stale] = (Inr [bugA_stale], [bugA_stale])"
    by (simp add: rejecting_target_def scenario_target_def)
  have r: "fst (syncIssues scenario_source scenario_target ?s0) = Inr ()"
    using pass [of scenario_source ?s0 "[bugA, bugB]" "[bugA_stale]" scenario_target
        "[bugA_stale]" "[bugA_stale]"] a b
    by auto
  have r': "fst (syncIssues scenario_source rejecting_target ?s0) = Inr ()"
    using pass [of scenario_source ?s0 "[bugA, bugB]" "[bugA_stale]" rejecting_target
        "[bugA_stale]" "[bugA_stale]"] a b'
    by auto
  have r'': "fst (syncIssues descriptorless_source scenario_target ?s0) = Inr ()"
    using pass [of descriptorless_source ?s0 "[bugA, bugB]" "[bugA_stale]" scenario_target
        "[bugA_stale]" "[bugA_stale]"] a' b
    by auto
  have link: "spec_backlink (url \<lparr>url = ''https://src.example/o/r''\<rparr>) (sourceIssue ?b) =
      ''**Original Issue**: [Bug B](https://src.example/o/r/issues/2)''"
    by (simp add: spec_backlink_def bugB_def numberToString_digit digit_def)
  have pay: "(sourceIssue ?b)
         \<lparr>issue.body :=
            Str (orEmpty (issue.body (sourceIssue ?b)) @ ''\<newline>\<newline>'' @
                 spec_backlink (url \<lparr>url = ''https://src.example/o/r''\<rparr>) (sourceIssue ?b))\<rparr> =
        ?payload"
    unfolding link by (simp add: bugB_def)
  have h1: "issue_comparison.action ?b = Create"
    by simp
  have h2: "client_getRepoInfo scenario_source (fst ?s0) =
      (Inr \<lparr>url = ''https://src.example/o/r''\<rparr>, [bugA_stale])"
    by (simp add: scenario_source_def)
  have h3: "client_createIssue rejecting_target
      ((sourceIssue ?b)
         \<lparr>issue.body :=
            Str (orEmpty (issue.body (sourceIssue ?b)) @ ''\<newline>\<newline>'' @
                 spec_backlink (url \<lparr>url = ''https://src.example/o/r''\<rparr>) (sourceIssue ?b))\<rparr>)
      [bugA_stale] = (Inl (JsError ''create rejected''), [bugA_stale])"
    by (simp add: rejecting_target_def scenario_target_def)
  have item: "syncIssues_item scenario_source rejecting_target ?b ?s0 =
     (Inr (),
      ([bugA_stale],
       [Call Source GetRepoInfo,
        Log Info (glyph_memo @ ('' Creating issue '' @ [CHR 0x22] @ ''Bug B'' @ [CHR 0x22])),
        Call Target (CreateIssue ?payload),
        Log Warning (''Failed to process issue '' @ [CHR 0x22] @ ''Bug B'' @ [CHR 0x22] @ '': create rejected'')]))"
    using failed_create [OF conjI [OF h1 conjI [OF h2 h3]]]
    unfolding pay by (simp add: bugB_def)
  have run: "snd (syncIssues scenario_source scenario_target ?s0) =
     ([bugA_stale, ?payload],
      [Call Source SyncIssues, Call Target SyncIssues,
       Log Debug (''Issue '' @ [CHR 0x22] @ ''Bug A'' @ [CHR 0x22] @ '' will be updated in target''),
       Log Debug (''Issue '' @ [CHR 0x22] @ ''Bug B'' @ [CHR 0x22] @ '' will be created in target''),
       Log Info (''\<newline>'' @ glyph_magnifier @ '' Issue Sync Analysis:''),
       Log Info (''\<newline>'' @ glyph_chart @ '' Sync Plan Summary:\<newline>'' @
            ''  - Create: 1 issues\<newline>'' @
            ''  - Update: 1 issues\<newline>'' @
            ''  - Skip: 0 issues (already in sync)\<newline>''),
       Log Info (glyph_memo @ ('' Updating issue '' @ [CHR 0x22] @ ''Bug A'' @ [CHR 0x22])),
       Call Target (UpdateIssue 7 bugA),
       Log Warning (''Failed to process issue '' @ [CHR 0x22] @ ''Bug A'' @ [CHR 0x22] @ '': update rejected''),
       Call Source GetRepoInfo,
       Log Info (glyph_memo @ ('' Creating issue '' @ [CHR 0x22] @ ''Bug B'' @ [CHR 0x22])),
       Call Target (CreateIssue ?payload),
       Log Info (glyph_check @ ('' Created issue '' @ [CHR 0x22] @ ''Bug B'' @ [CHR 0x22])),
       Log Info (glyph_check @ '' Issue synchronization completed'')])"
    by (simp add: syncIssues_def try_catch_def seq_def invoke_def scenario_source_def
        scenario_target_def compareIssues_def core_log_def logSyncPlan_def bugA_def bugB_def
        bugA_stale_def arraysEqual_def syncIssues_item_def syncIssues_try_def
        syncIssues_switch_def updateIssue_def createIssue_def prepareSourceLink_def ret_def
        numberToString_digit digit_def)
  have run': "snd (syncIssues scenario_source rejecting_target ?s0) =
     ([bugA_stale],
      [Call Source SyncIssues, Call Target SyncIssues,
       Log Debug (''Issue '' @ [CHR 0x22] @ ''Bug A'' @ [CHR 0x22] @ '' will be updated in target''),
       Log Debug (''Issue '' @ [CHR 0x22] @ ''Bug B'' @ [CHR 0x22] @ '' will be created in target''),
       Log Info (''\<newline>'' @ glyph_magnifier @ '' Issue Sync Analysis:''),
       Log Info (''\<newline>'' @ glyph_chart @ '' Sync Plan Summary:\<newline>'' @
            ''  - Create: 1 issues\<newline>'' @
            ''  - Update: 1 issues\<newline>'' @
            ''  - Skip: 0 issues (already in sync)\<newline>''),
       Log Info (glyph_memo @ ('' Updating issue '' @ [CHR 0x22] @ ''Bug A'' @ [CHR 0x22])),
       Call Target (UpdateIssue 7 bugA),
       Log Warning (''Failed to process issue '' @ [CHR 0x22] @ ''Bug A'' @ [CHR 0x22] @ '': update rejected''),
       Call Source GetRepoInfo,
       Log Info (glyph_memo @ ('' Creating issue '' @ [CHR 0x22] @ ''Bug B'' @ [CHR 0x22])),
       Call Target (CreateIssue ?payload),
       Log Warning (''Failed to process issue '' @ [CHR 0x22] @ ''Bug B'' @ [CHR 0x22] @ '': create rejected''),
       Log Info (glyph_check @ '' Issue synchronization completed'')])"
    by (simp add: syncIssues_def try_catch_def seq_def invoke_def scenario_source_def
        rejecting_target_def scenario_target_def compareIssues_def core_log_def logSyncPlan_def
        bugA_def bugB_def bugA_stale_def arraysEqual_def syncIssues_item_def syncIssues_try_def
        syncIssues_switch_def updateIssue_def createIssue_def prepareSourceLink_def ret_def
        numberToString_digit digit_def)
  have run'': "snd (syncIssues descriptorless_source scenario_target ?s0) =
     ([bugA_stale],
      [Call Source SyncIssues, Call Target SyncIssues,
       Log Debug (''Issue '' @ [CHR 0x22] @ ''Bug A'' @ [CHR 0x22] @ '' will be updated in target''),
       Log Debug (''Issue '' @ [CHR 0x22] @ ''Bug B'' @ [CHR 0x22] @ '' will be created in target''),
       Log Info (''\<newline>'' @ glyph_magnifier @ '' Issue Sync Analysis:''),
       Log Info (''\<newline>'' @ glyph_chart @ '' Sync Plan Summary:\<newline>'' @
            ''  - Create: 1 issues\<newline>'' @
            ''  - Update: 1 issues\<newline>'' @
            ''  - Skip: 0 issues (already in sync)\<newline>''),
       Log Info (glyph_memo @ ('' Updating issue '' @ [CHR 0x22] @ ''Bug A'' @ [CHR 0x22])),
       Call Target (UpdateIssue 7 bugA),
       Log Warning (''Failed to process issue '' @ [CHR 0x22] @ ''Bug A'' @ [CHR 0x22] @ '': update rejected''),
       Call Source GetRepoInfo,
       Log Warning (''Failed to process issue '' @ [CHR 0x22] @ ''Bug B'' @ [CHR 0x22] @ '': no descriptor''),
       Log Info (glyph_check @ '' Issue synchronization completed'')])"
    by (simp add: syncIssues_def try_catch_def seq_def invoke_def descriptorless_source_def
        scenario_source_def scenario_target_def compareIssues_def core_log_def logSyncPlan_def
        bugA_def bugB_def bugA_stale_def arraysEqual_def syncIssues_item_def syncIssues_try_def
        syncIssues_switch_def updateIssue_def createIssue_def prepareSourceLink_def ret_def
        numberToString_digit digit_def)
  have p: "calls (snd (snd (syncIssues scenario_source scenario_target ?s0))) =
      [(Source, SyncIssues), (Target, SyncIssues), (Target, UpdateIssue 7 bugA),
       (Source, GetRepoInfo), (Target, CreateIssue ?payload)]"
    "warnings (snd (snd (syncIssues scenario_source scenario_target ?s0))) =
      [(''Failed to process issue '' @ [CHR 0x22] @ ''Bug A'' @ [CHR 0x22] @ '': update rejected'')]"
    "fst (snd (syncIssues scenario_source scenario_target ?s0)) = [bugA_stale, ?payload]"
    unfolding run by simp_all
  have p': "calls (snd (snd (syncIssues scenario_source rejecting_target ?s0))) =
      [(Source, SyncIssues), (Target, SyncIssues), (Target, UpdateIssue 7 bugA),
       (Source, GetRepoInfo), (Target, CreateIssue ?payload)]"
    "warnings (snd (snd (syncIssues scenario_source rejecting_target ?s0))) =
      [(''Failed to process issue '' @ [CHR 0x22] @ ''Bug A'' @ [CHR 0x22] @ '': update rejected''),
       (''Failed to process issue '' @ [CHR 0x22] @ ''Bug B'' @ [CHR 0x22] @ '': create rejected'')]"
    "fst (snd (syncIssues scenario_source rejecting_target ?s0)) = [bugA_stale]"
    unfolding run' by simp_all
  have p'': "calls (snd (snd (syncIssues descriptorless_source scenario_target ?s0))) =
      [(Source, SyncIssues), (Target, SyncIssues), (Target, UpdateIssue 7 bugA),
       (Source, GetRepoInfo)]"
    "warnings (snd (snd (syncIssues descriptorless_source scenario_target ?s0))) =
      [(''Failed to process issue '' @ [CHR 0x22] @ ''Bug A'' @ [CHR 0x22] @ '': update rejected''),
       (''Failed to process issue '' @ [CHR 0x22] @ ''Bug B'' @ [CHR 0x22] @ '': no descriptor'')]"
    unfolding run'' by simp_all
  from r p item r' p' r'' p'' show ?thesis
    by simp
qed

section \<open>The reconciliation pass: creating an issue\<close>

lemma switch_create_effect:
  assumes "issue_comparison.action c = Create"
    and "client_getRepoInfo source (fst s) = (Inr info, w)"
  shows "fst (snd (syncIssues_switch source target c s)) =
           snd (client_createIssue target
                 ((sourceIssue c)
                    \<lparr>issue.body :=
                       Str (orEmpty (issue.body (sourceIssue c)) @ ''\<newline>\<newline>'' @
                            spec_backlink (url info) (sourceIssue c))\<rparr>) w)"
    and "prefix (snd s @
                 [Call Source GetRepoInfo,
                  Log Info (glyph_memo @ '' Creating issue '' @ [CHR 0x22] @
                            title (sourceIssue c) @ [CHR 0x22]),
                  Call Target
                    (CreateIssue
                      ((sourceIssue c)
                         \<lparr>issue.body :=
                            Str (orEmpty (issue.body (sourceIssue c)) @ ''\<newline>\<newline>'' @
                                 spec_backlink (url info) (sourceIssue c))\<rparr>))])
           (snd (snd (syncIssues_switch source target c s)))"
  unfolding switch_create [OF assms]
  by (auto simp: createIssue_run split: prod.splits sum.splits)

text \<open>
  Claim C6. For a create comparison, when the source client gives its repository
  descriptor, the annotator returns the line
  \<^verbatim>\<open>**Original Issue**: [<title>](<repoUrl>/issues/<number>)\<close> built from the descriptor's
  url and the title and number of the source issue, and the issue handed to the
  target's create-issue operation is the source issue with its body replaced by the
  original body, an empty line, and that backlink.
\<close>

theorem create_payload_carries_backlink:
  fixes c :: issue_comparison and info :: repo_info
  defines "sourceLink \<equiv>
      ''**Original Issue**: ['' @ title (sourceIssue c) @ '']('' @ url info @ ''/issues/'' @
      numberToString (number (sourceIssue c)) @ '')''"
  defines "payload \<equiv>
      (sourceIssue c)
        \<lparr>issue.body :=
           Str (orEmpty (issue.body (sourceIssue c)) @ ''\<newline>\<newline>'' @ sourceLink)\<rparr>"
  assumes "issue_comparison.action c = Create"
    and "client_getRepoInfo source (fst s) = (Inr info, w)"
  shows "prepareSourceLink source (sourceIssue c) s =
           (Inr sourceLink, (w, snd s @ [Call Source GetRepoInfo])) \<and>
         syncIssues_switch source target c s =
           createIssue target
             \<lparr>sourceIssue = payload, targetIssue = None, issue_comparison.action = Create\<rparr>
             (w, snd s @ [Call Source GetRepoInfo]) \<and>
         fst (snd (syncIssues_switch source target c s)) =
           snd (client_createIssue target payload w) \<and>
         prefix (snd s @
                 [Call Source GetRepoInfo,
                  Log Info (glyph_memo @ '' Creating issue '' @ [CHR 0x22] @
                            title (sourceIssue c) @ [CHR 0x22]),
                  Call Target (CreateIssue payload)])
           (snd (snd (syncIssues_switch source target c s))) \<and>
         (\<forall>b. issue.body (sourceIssue c) = Str b \<longrightarrow>
              issue.body payload = Str (b @ ''\<newline>\<newline>'' @ sourceLink))"
proof -
  have link: "sourceLink = spec_backlink (url info) (sourceIssue c)"
    by (simp add: sourceLink_def spec_backlink_def)
  have p: "prepareSourceLink source (sourceIssue c) s =
           (Inr sourceLink, (w, snd s @ [Call Source GetRepoInfo]))"
    unfolding link using assms(4) by (rule prepareSourceLink_run)
  have q: "syncIssues_switch source target c s =
           createIssue target
             \<lparr>sourceIssue = payload, targetIssue = None, issue_comparison.action = Create\<rparr>
             (w, snd s @ [Call Source GetRepoInfo])"
    unfolding payload_def link using assms(3,4) by (rule switch_create)
  have r: "fst (snd (syncIssues_switch source target c s)) =
           snd (client_createIssue target payload w)"
    unfolding payload_def link using assms(3,4) by (rule switch_create_effect(1))
  have t: "prefix (snd s @
                 [Call Source GetRepoInfo,
                  Log Info (glyph_memo @ '' Creating issue '' @ [CHR 0x22] @
                            title (sourceIssue c) @ [CHR 0x22]),
                  Call Target (CreateIssue payload)])
           (snd (snd (syncIssues_switch source target c s)))"
    unfolding payload_def link using assms(3,4) by (rule switch_create_effect(2))
  have u: "\<forall>b. issue.body (sourceIssue c) = Str b \<longrightarrow>
              issue.body payload = Str (b @ ''\<newline>\<newline>'' @ sourceLink)"
    by (simp add: payload_def)
  from p q r t u show ?thesis
    by (intro conjI)
qed

theorem create_payload_carries_backlink_witness:
  "prepareSourceLink scenario_source bugA ([], []) =
     (Inr ''**Original Issue**: [Bug A](https://src.example/o/r/issues/1)'',
      ([], [Call Source GetRepoInfo])) \<and>
   fst (snd (syncIssues_switch scenario_source scenario_target
               \<lparr>sourceIssue = bugA, targetIssue = None, issue_comparison.action = Create\<rparr>
               ([], []))) =
     [bugA\<lparr>issue.body :=
        Str ''x\<newline>\<newline>**Original Issue**: [Bug A](https://src.example/o/r/issues/1)''\<rparr>] \<and>
   calls (snd (snd (syncIssues_switch scenario_source scenario_target
               \<lparr>sourceIssue = bugA, targetIssue = None, issue_comparison.action = Create\<rparr>
               ([], [])))) =
     [(Source, GetRepoInfo),
      (Target, CreateIssue
         (bugA\<lparr>issue.body :=
            Str ''x\<newline>\<newline>**Original Issue**: [Bug A](https://src.example/o/r/issues/1)''\<rparr>))]"
proof -
  let ?s0 = "([], []) :: issue list st"
  let ?c = "\<lparr>sourceIssue = bugA, targetIssue = None, issue_comparison.action = Create\<rparr>"
  have a: "issue_comparison.action ?c = Create"
    by simp
  have b: "client_getRepoInfo scenario_source (fst ?s0) =
      (Inr \<lparr>url = ''https://src.example/o/r''\<rparr>, [])"
    by (simp add: scenario_source_def)
  have n: "numberToString (number bugA) = ''1''"
    by (simp add: bugA_def numberToString_digit digit_def)
  note t = create_payload_carries_backlink [OF a b, of scenario_target]
  have "prepareSourceLink scenario_source (sourceIssue ?c) ?s0 =
      (Inr (''**Original Issue**: ['' @ title (sourceIssue ?c) @ '']('' @
            url \<lparr>url = ''https://src.example/o/r''\<rparr> @ ''/issues/'' @
            numberToString (number (sourceIssue ?c)) @ '')''),
       ([], snd ?s0 @ [Call Source GetRepoInfo]))"
    by (rule t [THEN conjunct1])
  then have "prepareSourceLink scenario_source bugA ?s0 =
     (Inr ''**Original Issue**: [Bug A](https://src.example/o/r/issues/1)'',
      ([], [Call Source GetRepoInfo]))"
    using n by (simp add: bugA_def)
  moreover have "fst (snd (syncIssues_switch scenario_source scenario_target ?c ?s0)) =
      snd (client_createIssue scenario_target
            ((sourceIssue ?c)
               \<lparr>issue.body :=
                  Str (orEmpty (issue.body (sourceIssue ?c)) @ ''\<newline>\<newline>'' @
                     ''**Original Issue**: ['' @ title (sourceIssue ?c) @ '']('' @
                     url \<lparr>url = ''https://src.example/o/r''\<rparr> @ ''/issues/'' @
                     numberToString (number (sourceIssue ?c)) @ '')'')\<rparr>) [])"
    by (rule t [THEN conjunct2, THEN conjunct2, THEN conjunct1])
  then have "fst (snd (syncIssues_switch scenario_source scenario_target ?c ?s0)) =
     [bugA\<lparr>issue.body :=
        Str ''x\<newline>\<newline>**Original Issue**: [Bug A](https://src.example/o/r/issues/1)''\<rparr>]"
    using n by (simp add: bugA_def scenario_target_def)
  moreover have "calls (snd (snd (syncIssues_switch scenario_source scenario_target ?c ?s0))) =
     [(Source, GetRepoInfo),
      (Target, CreateIssue
         (bugA\<lparr>issue.body :=
            Str ''x\<newline>\<newline>**Original Issue**: [Bug A](https://src.example/o/r/issues/1)''\<rparr>))]"
    by (simp add: syncIssues_switch_def seq_def invoke_def scenario_source_def
        scenario_target_def core_log_def bugA_def createIssue_def prepareSourceLink_def ret_def
        numberToString_digit digit_def)
  ultimately show ?thesis
    by (intro conjI)
qed

text \<open>
  Claim C10. When the source issue of a create comparison has no body (undefined or
  null), the issue handed to the target's create-issue operation has as body the empty
  string, an empty line and the backlink. That issue is a new record: number, title,
  state and labels are those of the source issue, and the source issue of the
  comparison, which the loop goes on reading, is another value and keeps its missing
  body.
\<close>

theorem absent_body_becomes_empty_string:
  fixes c :: issue_comparison and info :: repo_info
  defines "sourceLink \<equiv>
      ''**Original Issue**: ['' @ title (sourceIssue c) @ '']('' @ url info @ ''/issues/'' @
      numberToString (number (sourceIssue c)) @ '')''"
  defines "payload \<equiv>
      (sourceIssue c)\<lparr>issue.body := Str ([] @ ''\<newline>\<newline>'' @ sourceLink)\<rparr>"
  assumes "issue_comparison.action c = Create"
    and "client_getRepoInfo source (fst s) = (Inr info, w)"
    and "issue.body (sourceIssue c) = Undefined \<or> issue.body (sourceIssue c) = Null"
  shows "syncIssues_switch source target c s =
           createIssue target
             \<lparr>sourceIssue = payload, targetIssue = None, issue_comparison.action = Create\<rparr>
             (w, snd s @ [Call Source GetRepoInfo]) \<and>
         fst (snd (syncIssues_switch source target c s)) =
           snd (client_createIssue target payload w) \<and>
         prefix (snd s @
                 [Call Source GetRepoInfo,
                  Log Info (glyph_memo @ '' Creating issue '' @ [CHR 0x22] @
                            title (sourceIssue c) @ [CHR 0x22]),
                  Call Target (CreateIssue payload)])
           (snd (snd (syncIssues_switch source target c s))) \<and>
         number payload = number (sourceIssue c) \<and>
         title payload = title (sourceIssue c) \<and>
         state payload = state (sourceIssue c) \<and>
         labels payload = labels (sourceIssue c) \<and>
         payload \<noteq> sourceIssue c"
proof -
  have link: "sourceLink = spec_backlink (url info) (sourceIssue c)"
    by (simp add: sourceLink_def spec_backlink_def)
  have empty: "orEmpty (issue.body (sourceIssue c)) = []"
    using assms(5) by auto
  have pay: "payload =
      (sourceIssue c)
        \<lparr>issue.body :=
           Str (orEmpty (issue.body (sourceIssue c)) @ ''\<newline>\<newline>'' @
                spec_backlink (url info) (sourceIssue c))\<rparr>"
    unfolding payload_def link empty ..
  have q: "syncIssues_switch source target c s =
           createIssue target
             \<lparr>sourceIssue = payload, targetIssue = None, issue_comparison.action = Create\<rparr>
             (w, snd s @ [Call Source GetRepoInfo])"
    unfolding pay using assms(3,4) by (rule switch_create)
  have r: "fst (snd (syncIssues_switch source target c s)) =
           snd (client_createIssue target payload w)"
    unfolding pay using assms(3,4) by (rule switch_create_effect(1))
  have t: "prefix (snd s @
                 [Call Source GetRepoInfo,
                  Log Info (glyph_memo @ '' Creating issue '' @ [CHR 0x22] @
                            title (sourceIssue c) @ [CHR 0x22]),
                  Call Target (CreateIssue payload)])
           (snd (snd (syncIssues_switch source target c s)))"
    unfolding pay using assms(3,4) by (rule switch_create_effect(2))
  have f: "number payload = number (sourceIssue c)" "title payload = title (sourceIssue c)"
    "state payload = state (sourceIssue c)" "labels payload = labels (sourceIssue c)"
    by (simp_all add: payload_def)
  have "issue.body payload \<noteq> issue.body (sourceIssue c)"
    using assms(5) by (auto simp: payload_def)
  then have d: "payload \<noteq> sourceIssue c"
    by auto
  from q r t f d show ?thesis
    by (intro conjI)
qed

theorem absent_body_becomes_empty_string_witness:
  "issue.body bugB = Undefined \<and>
   fst (snd (syncIssues_switch scenario_source scenario_target
               \<lparr>sourceIssue = bugB, targetIssue = None, issue_comparison.action = Create\<rparr>
               ([], []))) =
     [\<lparr>number = 2, title = ''Bug B'',
       body = Str ''\<newline>\<newline>**Original Issue**: [Bug B](https://src.example/o/r/issues/2)'',
       state = Open, labels = []\<rparr>]"
proof -
  let ?s0 = "([], []) :: issue list st"
  let ?c = "\<lparr>sourceIssue = bugB, targetIssue = None, issue_comparison.action = Create\<rparr>"
  have a: "issue_comparison.action ?c = Create"
    by simp
  have b: "client_getRepoInfo scenario_source (fst ?s0) =
      (Inr \<lparr>url = ''https://src.example/o/r''\<rparr>, [])"
    by (simp add: scenario_source_def)
  have u: "issue.body bugB = Undefined"
    by (simp add: bugB_def)
  then have d: "issue.body (sourceIssue ?c) = Undefined \<or> issue.body (sourceIssue ?c) = Null"
    by simp
  have n: "numberToString (number bugB) = ''2''"
    by (simp add: bugB_def numberToString_digit digit_def)
  have "fst (snd (syncIssues_switch scenario_source scenario_target ?c ?s0)) =
      snd (client_createIssue scenario_target
            ((sourceIssue ?c)
               \<lparr>issue.body :=
                  Str ([] @ ''\<newline>\<newline>'' @
                     ''**Original Issue**: ['' @ title (sourceIssue ?c) @ '']('' @
                     url \<lparr>url = ''https://src.example/o/r''\<rparr> @ ''/issues/'' @
                     numberToString (number (sourceIssue ?c)) @ '')'')\<rparr>) [])"
    by (rule absent_body_becomes_empty_string
          [OF a b d, of scenario_target, THEN conjunct2, THEN conjunct1])
  then have "fst (snd (syncIssues_switch scenario_source scenario_target ?c ?s0)) =
     [\<lparr>number = 2, title = ''Bug B'',
       body = Str ''\<newline>\<newline>**Original Issue**: [Bug B](https://src.example/o/r/issues/2)'',
       state = Open, labels = []\<rparr>]"
    using n by (simp add: bugB_def scenario_target_def)
  with u show ?thesis
    by (intro conjI)
qed

section \<open>The reconciliation pass: comments\<close>

lemma item_create_events:
  assumes "issue_comparison.action c = Create" and "targetIssue c = None"
  shows "\<exists>evs. snd (snd (syncIssues_item source target c s)) = snd s @ evs \<and>
           (\<forall>p\<in>set (calls evs). \<not> isCommentCall (snd p))"
proof -
  obtain r w where info: "client_getRepoInfo source (fst s) = (r, w)"
    by (cases "client_getRepoInfo source (fst s)")
  show ?thesis
  proof (cases r)
    case (Inl e)
    with info assms have "snd (snd (syncIssues_item source target c s)) =
        snd s @ [Call Source GetRepoInfo,
                 Log Warning (''Failed to process issue '' @ [CHR 0x22] @ title (sourceIssue c) @
                              [CHR 0x22] @ '': '' @ errorText e)]"
      by (simp add: item_after_switch switch_create_no_link)
    then show ?thesis
      by (intro exI conjI) (assumption, simp)
  next
    case (Inr i)
    let ?p = "(sourceIssue c)
            \<lparr>issue.body :=
               Str (orEmpty (issue.body (sourceIssue c)) @ ''\<newline>\<newline>'' @
                    spec_backlink (url i) (sourceIssue c))\<rparr>"
    obtain r' w' where cr: "client_createIssue target ?p w = (r', w')"
      by (cases "client_createIssue target ?p w")
    from Inr info assms(1) have sw: "syncIssues_switch source target c s =
        createIssue target
          \<lparr>sourceIssue = ?p, targetIssue = None, issue_comparison.action = Create\<rparr>
          (w, snd s @ [Call Source GetRepoInfo])"
      by (simp add: switch_create)
    show ?thesis
    proof (cases r')
      case (Inl e)
      with cr assms(2) have "snd (snd (syncIssues_item source target c s)) =
        snd s @ [Call Source GetRepoInfo,
                 Log Info (glyph_memo @ '' Creating issue '' @ [CHR 0x22] @ title (sourceIssue c) @
                           [CHR 0x22]),
                 Call Target (CreateIssue ?p),
                 Log Warning (''Failed to process issue '' @ [CHR 0x22] @ title (sourceIssue c) @
                              [CHR 0x22] @ '': '' @ errorText e)]"
        unfolding item_after_switch sw by (simp add: createIssue_run)
      then show ?thesis
        by (intro exI conjI) (assumption, simp)
    next
      case (Inr u)
      with cr assms(2) have "snd (snd (syncIssues_item source target c s)) =
        snd s @ [Call Source GetRepoInfo,
                 Log Info (glyph_memo @ '' Creating issue '' @ [CHR 0x22] @ title (sourceIssue c) @
                           [CHR 0x22]),
                 Call Target (CreateIssue ?p),
                 Log Info (glyph_check @ '' Created issue '' @ [CHR 0x22] @ title (sourceIssue c) @
                           [CHR 0x22])]"
        unfolding item_after_switch sw by (simp add: createIssue_run)
      then show ?thesis
        by (intro exI conjI) (assumption, simp)
    qed
  qed
qed

text \<open>
  Claim C9. A comparison with action create that \<^const>\<open>compareIssues\<close> produced has no
  target issue, and processing it calls neither client for comments: the events it adds
  hold no fetch of comments and no creation of a comment.
\<close>

theorem create_runs_no_comment_operation:
  assumes "fst (compareIssues sourceIssues targetIssues t) = Inr cs"
    and "c \<in> set cs"
    and "issue_comparison.action c = Create"
  shows "targetIssue c = None \<and>
         (\<exists>evs. snd (snd (syncIssues_item source target c s)) = snd s @ evs \<and>
            (\<forall>p\<in>set (calls evs). \<not> isCommentCall (snd p)))"
proof -
  have "fst (compareIssues sourceIssues targetIssues t) =
      Inr (map (spec_compareIssue targetIssues) sourceIssues)"
    using compareIssues_eq [of sourceIssues targetIssues t] by auto
  with assms(1) have "cs = map (spec_compareIssue targetIssues) sourceIssues"
    by simp
  with assms(2) obtain a where "c = spec_compareIssue targetIssues a"
    by auto
  with assms(3) have none: "targetIssue c = None"
    by (simp add: spec_compareIssue_Create)
  with assms(3) show ?thesis
    by (simp add: item_create_events)
qed

theorem create_runs_no_comment_operation_witness:
  "calls (snd (snd (syncIssues_item scenario_source scenario_target
                     \<lparr>sourceIssue = bugB, targetIssue = None, issue_comparison.action = Create\<rparr>
                     ([bugA_stale], [])))) =
     [(Source, GetRepoInfo),
      (Target, CreateIssue
         (bugB\<lparr>issue.body :=
            Str ''\<newline>\<newline>**Original Issue**: [Bug B](https://src.example/o/r/issues/2)''\<rparr>))] \<and>
   list_all (\<lambda>p. \<not> isCommentCall (snd p))
     (calls (snd (snd (syncIssues_item scenario_source scenario_target
                     \<lparr>sourceIssue = bugB, targetIssue = None, issue_comparison.action = Create\<rparr>
                     ([bugA_stale], [])))))"
proof -
  let ?c = "\<lparr>sourceIssue = bugB, targetIssue = None, issue_comparison.action = Create\<rparr>"
  let ?s0 = "([bugA_stale], []) :: issue list st"
  have "fst (compareIssues [bugA, bugB] [bugA_stale] ?s0) =
      Inr (map (spec_compareIssue [bugA_stale]) [bugA, bugB])"
    using compareIssues_eq [of "[bugA, bugB]" "[bugA_stale]" ?s0] by auto
  then have a: "fst (compareIssues [bugA, bugB] [bugA_stale] ?s0) =
      Inr [\<lparr>sourceIssue = bugA, targetIssue = Some bugA_stale, issue_comparison.action = Update\<rparr>, ?c]"
    by (simp add: spec_compareIssue_def bugA_def bugB_def bugA_stale_def)
  have b: "?c \<in> set [\<lparr>sourceIssue = bugA, targetIssue = Some bugA_stale,
                        issue_comparison.action = Update\<rparr>, ?c]"
    by simp
  have c: "issue_comparison.action ?c = Create"
    by simp
  from create_runs_no_comment_operation [OF a b c, of scenario_source scenario_target ?s0]
  obtain evs where evs: "snd (snd (syncIssues_item scenario_source scenario_target ?c ?s0)) = evs"
    and quiet: "\<forall>p\<in>set (calls evs). \<not> isCommentCall (snd p)"
    by auto
  from quiet have "list_all (\<lambda>p. \<not> isCommentCall (snd p)) (calls evs)"
    by (simp add: list_all_iff)
  moreover have "calls (snd (snd (syncIssues_item scenario_source scenario_target ?c ?s0))) =
     [(Source, GetRepoInfo),
      (Target, CreateIssue
         (bugB\<lparr>issue.body :=
            Str ''\<newline>\<newline>**Original Issue**: [Bug B](https://src.example/o/r/issues/2)''\<rparr>))]"
    by (simp add: syncIssues_item_def syncIssues_try_def try_catch_def syncIssues_switch_def
        seq_def invoke_def scenario_source_def scenario_target_def core_log_def bugB_def
        createIssue_def prepareSourceLink_def ret_def numberToString_digit digit_def)
  ultimately show ?thesis
    unfolding evs by (intro conjI)
qed

lemma syncIssueComments_starts_with_fetch:
  "prefix (snd s @ [Call Source (GetIssueComments sn)])
     (snd (snd (syncIssueComments source target sn tn s)))"
proof -
  let ?s1 = "(snd (client_getIssueComments source sn (fst s)),
              snd s @ [Call Source (GetIssueComments sn)])"
  let ?rest = "\<lambda>sourceComments.
      seq (invoke Target (GetIssueComments tn) (client_getIssueComments target tn))
        (\<lambda>targetComments.
           forEach (compareComments sourceComments targetComments)
             (syncIssueComments_item target tn))"
  let ?h = "\<lambda>error. core_log Warning
          (''Failed to sync comments for issue #'' @ numberToString sn @ '': '' @ errorText error)"
  have rest: "\<And>x t. prefix (snd t) (snd (snd (?rest x t)))"
    by (intro grows_seq grows_invoke grows_forEach grows_syncIssueComments_item)
  obtain r w where f: "client_getIssueComments source sn (fst s) = (r, w)"
    by (cases "client_getIssueComments source sn (fst s)")
  show ?thesis
  proof (cases r)
    case (Inl e)
    with f show ?thesis
      by (simp add: syncIssueComments_def try_catch_def seq_def invoke_def core_log_def)
  next
    case (Inr scs)
    have "syncIssueComments source target sn tn s =
        try_catch (?rest scs) ?h (w, snd s @ [Call Source (GetIssueComments sn)])"
      using f Inr
      by (simp add: syncIssueComments_def try_catch_def seq_def invoke_def)
    moreover have "prefix (snd (w, snd s @ [Call Source (GetIssueComments sn)]))
        (snd (snd (try_catch (?rest scs) ?h (w, snd s @ [Call Source (GetIssueComments sn)]))))"
      by (rule grows_try_catch) (rule rest, rule grows_core_log)
    ultimately show ?thesis
      by simp
  qed
qed

lemma syncIssueComments_run:
  assumes "client_getIssueComments source sn (fst s) = (Inr scs, w)"
    and "client_getIssueComments target tn w = (Inr tcs, w')"
  shows "syncIssueComments source target sn tn s =
     forEach (compareComments scs tcs) (syncIssueComments_item target tn)
       (w', snd s @ [Call Source (GetIssueComments sn), Call Target (GetIssueComments tn)])"
proof -
  let ?s2 = "(w', snd s @ [Call Source (GetIssueComments sn), Call Target (GetIssueComments tn)])"
  obtain s3 where loop: "forEach (compareComments scs tcs) (syncIssueComments_item target tn) ?s2 =
      (Inr (), s3)"
    using forEach_total [of "syncIssueComments_item target tn" "compareComments scs tcs" ?s2,
        OF syncIssueComments_item_total]
    by (cases "forEach (compareComments scs tcs) (syncIssueComments_item target tn) ?s2") simp
  with assms show ?thesis
    by (simp add: syncIssueComments_def try_catch_def seq_def invoke_def)
qed

lemma switch_skip:
  "issue_comparison.action c = Skip \<Longrightarrow> fst (syncIssues_switch source target c s) = Inr ()"
  by (simp add: syncIssues_switch_def core_log_def)

lemma switch_update:
  "issue_comparison.action c = Update \<Longrightarrow> targetIssue c = Some t \<Longrightarrow>
     fst (syncIssues_switch source target c s) =
       fst (client_updateIssue target (number t) (sourceIssue c) (fst s))"
  by (simp add: syncIssues_switch_def updateIssue_def seq_def core_log_def invoke_def
      split: prod.splits sum.splits)

text \<open>
  The claim C8 as it is stated does not hold of the code: the update call and the
  comment synchronisation stand in the same \<^verbatim>\<open>try\<close> block, so an update that throws
  leaves the block before the comments are looked at. Bug A is on both sides, the
  target rejects the update, and the only client call made for the comparison is that
  update.
\<close>

theorem comment_sync_skipped_when_update_throws:
  "fst (compareIssues [bugA] [bugA_stale] ([bugA_stale], [])) =
     Inr [\<lparr>sourceIssue = bugA, targetIssue = Some bugA_stale,
           issue_comparison.action = Update\<rparr>] \<and>
   targetIssue \<lparr>sourceIssue = bugA, targetIssue = Some bugA_stale,
                issue_comparison.action = Update\<rparr> \<noteq> None \<and>
   calls (snd (snd (syncIssues_item scenario_source scenario_target
                     \<lparr>sourceIssue = bugA, targetIssue = Some bugA_stale,
                      issue_comparison.action = Update\<rparr>
                     ([bugA_stale], [])))) =
     [(Target, UpdateIssue 7 bugA)] \<and>
   (Source, GetIssueComments 1) \<notin>
     set (calls (snd (snd (syncIssues_item scenario_source scenario_target
                     \<lparr>sourceIssue = bugA, targetIssue = Some bugA_stale,
                      issue_comparison.action = Update\<rparr>
                     ([bugA_stale], [])))))"
proof -
  let ?c = "\<lparr>sourceIssue = bugA, targetIssue = Some bugA_stale,
             issue_comparison.action = Update\<rparr>"
  let ?s0 = "([bugA_stale], []) :: issue list st"
  have "fst (compareIssues [bugA] [bugA_stale] ?s0) = Inr (map (spec_compareIssue [bugA_stale]) [bugA])"
    using compareIssues_eq [of "[bugA]" "[bugA_stale]" ?s0] by auto
  then have a: "fst (compareIssues [bugA] [bugA_stale] ?s0) = Inr [?c]"
    by (simp add: spec_compareIssue_def bugA_def bugA_stale_def)
  have b: "calls (snd (snd (syncIssues_item scenario_source scenario_target ?c ?s0))) =
      [(Target, UpdateIssue 7 bugA)]"
    by (simp add: syncIssues_item_def syncIssues_try_def try_catch_def syncIssues_switch_def
        seq_def invoke_def scenario_target_def core_log_def bugA_def bugA_stale_def
        updateIssue_def)
  from a b show ?thesis
    by simp
qed

text \<open>
  Claim C8, amended. Comment synchronisation runs for a comparison exactly when its
  target issue is present and the step before it did not throw: always after a skip,
  and after an update exactly when the target's update call returned. When it runs it
  starts by fetching the source comments, and it never throws to the loop over the
  issues: a failed fetch of comments on either side writes one warning and ends it, and
  a failed creation of a comment writes one warning and the comments that follow are
  still processed.
\<close>

theorem comment_sync_runs_after_successful_step:
  "(syncIssues_switch source target c s = (Inr u, s') \<and> targetIssue c = Some t \<longrightarrow>
      syncIssues_item source target c s =
        syncIssueComments source target (number (sourceIssue c)) (number t) s') \<and>
   (syncIssues_switch source target c s = (Inr u, s') \<and> targetIssue c = None \<longrightarrow>
      syncIssues_item source target c s = (Inr (), s')) \<and>
   (syncIssues_switch source target c s = (Inl e, s') \<longrightarrow>
      syncIssues_item source target c s =
        (Inr (),
         (fst s', snd s' @
            [Log Warning (''Failed to process issue '' @ [CHR 0x22] @ title (sourceIssue c) @
                          [CHR 0x22] @ '': '' @ errorText e)]))) \<and>
   (issue_comparison.action c = Skip \<longrightarrow> fst (syncIssues_switch source target c s) = Inr ()) \<and>
   (issue_comparison.action c = Update \<and> targetIssue c = Some t \<longrightarrow>
      fst (syncIssues_switch source target c s) =
        fst (client_updateIssue target (number t) (sourceIssue c) (fst s))) \<and>
   prefix (snd s @ [Call Source (GetIssueComments sn)])
     (snd (snd (syncIssueComments source target sn tn s))) \<and>
   fst (syncIssueComments source target sn tn s) = Inr () \<and>
   (client_getIssueComments source sn (fst s) = (Inl e, w) \<longrightarrow>
      syncIssueComments source target sn tn s =
        (Inr (),
         (w, snd s @
            [Call Source (GetIssueComments sn),
             Log Warning (''Failed to sync comments for issue #'' @ numberToString sn @ '': '' @
                          errorText e)]))) \<and>
   (client_getIssueComments source sn (fst s) = (Inr scs, w) \<and>
    client_getIssueComments target tn w = (Inl e, w') \<longrightarrow>
      syncIssueComments source target sn tn s =
        (Inr (),
         (w', snd s @
            [Call Source (GetIssueComments sn), Call Target (GetIssueComments tn),
             Log Warning (''Failed to sync comments for issue #'' @ numberToString sn @ '': '' @
                          errorText e)]))) \<and>
   (client_getIssueComments source sn (fst s) = (Inr scs, w) \<and>
    client_getIssueComments target tn w = (Inr tcs, w') \<longrightarrow>
      syncIssueComments source target sn tn s =
        forEach (compareComments scs tcs) (syncIssueComments_item target tn)
          (w', snd s @ [Call Source (GetIssueComments sn), Call Target (GetIssueComments tn)])) \<and>
   fst (syncIssueComments_item target tn cc s) = Inr () \<and>
   (comment_comparison.action cc = Create \<and> createComment target tn cc s = (Inl e, s') \<longrightarrow>
      syncIssueComments_item target tn cc s =
        (Inr (),
         (fst s', snd s' @
            [Log Warning (''Failed to sync comment in issue #'' @ numberToString tn @ '': '' @
                          errorText e)]))) \<and>
   forEach (ccs @ cc # ccs') (syncIssueComments_item target tn) s =
     forEach ccs' (syncIssueComments_item target tn)
       (snd (syncIssueComments_item target tn cc
              (snd (forEach ccs (syncIssueComments_item target tn) s))))"
proof -
  let ?item = "syncIssueComments_item target tn"
  have a: "syncIssues_switch source target c s = (Inr u, s') \<and> targetIssue c = Some t \<longrightarrow>
      syncIssues_item source target c s =
        syncIssueComments source target (number (sourceIssue c)) (number t) s'"
    by (simp add: item_after_switch)
  have b: "syncIssues_switch source target c s = (Inr u, s') \<and> targetIssue c = None \<longrightarrow>
      syncIssues_item source target c s = (Inr (), s')"
    by (simp add: item_after_switch)
  have c: "syncIssues_switch source target c s = (Inl e, s') \<longrightarrow>
      syncIssues_item source target c s =
        (Inr (),
         (fst s', snd s' @
            [Log Warning (''Failed to process issue '' @ [CHR 0x22] @ title (sourceIssue c) @
                          [CHR 0x22] @ '': '' @ errorText e)]))"
    by (simp add: item_after_switch)
  have d: "issue_comparison.action c = Skip \<longrightarrow> fst (syncIssues_switch source target c s) = Inr ()"
    by (simp add: switch_skip)
  have d': "issue_comparison.action c = Update \<and> targetIssue c = Some t \<longrightarrow>
      fst (syncIssues_switch source target c s) =
        fst (client_updateIssue target (number t) (sourceIssue c) (fst s))"
    by (simp add: switch_update)
  have g: "client_getIssueComments source sn (fst s) = (Inl e, w) \<longrightarrow>
      syncIssueComments source target sn tn s =
        (Inr (),
         (w, snd s @
            [Call Source (GetIssueComments sn),
             Log Warning (''Failed to sync comments for issue #'' @ numberToString sn @ '': '' @
                          errorText e)]))"
    by (simp add: syncIssueComments_def try_catch_def seq_def invoke_def core_log_def)
  have h: "client_getIssueComments source sn (fst s) = (Inr scs, w) \<and>
    client_getIssueComments target tn w = (Inl e, w') \<longrightarrow>
      syncIssueComments source target sn tn s =
        (Inr (),
         (w', snd s @
            [Call Source (GetIssueComments sn), Call Target (GetIssueComments tn),
             Log Warning (''Failed to sync comments for issue #'' @ numberToString sn @ '': '' @
                          errorText e)]))"
    by (simp add: syncIssueComments_def try_catch_def seq_def invoke_def core_log_def)
  have l: "client_getIssueComments source sn (fst s) = (Inr scs, w) \<and>
    client_getIssueComments target tn w = (Inr tcs, w') \<longrightarrow>
      syncIssueComments source target sn tn s =
        forEach (compareComments scs tcs) ?item
          (w', snd s @ [Call Source (GetIssueComments sn), Call Target (GetIssueComments tn)])"
    by (simp add: syncIssueComments_run)
  have j: "comment_comparison.action cc = Create \<and> createComment target tn cc s = (Inl e, s') \<longrightarrow>
      ?item cc s =
        (Inr (),
         (fst s', snd s' @
            [Log Warning (''Failed to sync comment in issue #'' @ numberToString tn @ '': '' @
                          errorText e)]))"
    by (simp add: syncIssueComments_item_def try_catch_def core_log_def)
  have "forEach (ccs @ cc # ccs') ?item s = forEach (cc # ccs') ?item (snd (forEach ccs ?item s))"
    by (rule forEach_append) (rule syncIssueComments_item_total)
  also have "\<dots> = forEach ccs' ?item (snd (?item cc (snd (forEach ccs ?item s))))"
    by (rule forEach_step) (rule syncIssueComments_item_total)
  finally have k: "forEach (ccs @ cc # ccs') ?item s =
      forEach ccs' ?item (snd (?item cc (snd (forEach ccs ?item s))))" .
  from a b c d d' syncIssueComments_starts_with_fetch [of s sn source target tn]
    syncIssueComments_total [of source target sn tn s] g h l
    syncIssueComments_item_total [of target tn cc s] j k
  show ?thesis
    by (intro conjI)
qed

theorem comment_sync_runs_after_successful_step_witness:
  "calls (snd (snd (syncIssues_item scenario_source accepting_target
                     \<lparr>sourceIssue = bugA, targetIssue = Some bugA_stale,
                      issue_comparison.action = Update\<rparr>
                     ([bugA_stale], [])))) =
     [(Target, UpdateIssue 7 bugA), (Source, GetIssueComments 1), (Target, GetIssueComments 7),
      (Target, CreateIssueComment 7 comment_first),
      (Target, CreateIssueComment 7 comment_last)] \<and>
   warnings (snd (snd (syncIssues_item scenario_source accepting_target
                     \<lparr>sourceIssue = bugA, targetIssue = Some bugA_stale,
                      issue_comparison.action = Update\<rparr>
                     ([bugA_stale], [])))) =
     [''Failed to sync comment in issue #7: denied''] \<and>
   calls (snd (snd (syncIssues_item commentless_source accepting_target
                     \<lparr>sourceIssue = bugA, targetIssue = Some bugA_stale,
                      issue_comparison.action = Update\<rparr>
                     ([bugA_stale], [])))) =
     [(Target, UpdateIssue 7 bugA), (Source, GetIssueComments 1)] \<and>
   warnings (snd (snd (syncIssues_item commentless_source accepting_target
                     \<lparr>sourceIssue = bugA, targetIssue = Some bugA_stale,
                      issue_comparison.action = Update\<rparr>
                     ([bugA_stale], [])))) =
     [''Failed to sync comments for issue #1: no comments'']"
proof -
  let ?c = "\<lparr>sourceIssue = bugA, targetIssue = Some bugA_stale,
             issue_comparison.action = Update\<rparr>"
  let ?s0 = "([bugA_stale], []) :: issue list st"
  let ?s1 = "([bugA_stale],
              [Log Info (glyph_memo @ '' Updating issue '' @ [CHR 0x22] @ ''Bug A'' @ [CHR 0x22]),
               Call Target (UpdateIssue 7 bugA),
               Log Info (glyph_check @ '' Updated issue '' @ [CHR 0x22] @ ''Bug A'' @ [CHR 0x22])])
             :: issue list st"
  have sw: "syncIssues_switch source accepting_target ?c ?s0 = (Inr (), ?s1)" for source
    by (simp add: syncIssues_switch_def updateIssue_def seq_def core_log_def invoke_def
        accepting_target_def scenario_target_def bugA_def bugA_stale_def)
  have tg: "targetIssue ?c = Some bugA_stale"
    by simp
  have item: "syncIssues_item source accepting_target ?c ?s0 =
      syncIssueComments source accepting_target (number (sourceIssue ?c)) (number bugA_stale) ?s1"
    for source
    using comment_sync_runs_after_successful_step
      [where source = source and target = accepting_target and c = ?c and s = ?s0 and u = "()"
         and s' = ?s1 and t = bugA_stale, THEN conjunct1]
      sw [of source] tg
    by blast
  have nums: "number (sourceIssue ?c) = 1" "number bugA_stale = 7"
    by (simp_all add: bugA_def bugA_stale_def)
  have fetch: "client_getIssueComments commentless_source 1 (fst ?s1) =
      (Inl (JsError ''no comments''), [bugA_stale])"
    by (simp add: commentless_source_def scenario_source_def)
  have quiet: "syncIssueComments commentless_source accepting_target 1 7 ?s1 =
      (Inr (),
       ([bugA_stale], snd ?s1 @
          [Call Source (GetIssueComments 1),
           Log Warning (''Failed to sync comments for issue #'' @ numberToString 1 @ '': '' @
                        errorText (JsError ''no comments''))]))"
    using comment_sync_runs_after_successful_step
      [where source = commentless_source and target = accepting_target and s = ?s1 and sn = 1
         and tn = 7 and e = "JsError ''no comments''" and w = "[bugA_stale]",
       THEN conjunct2, THEN conjunct2, THEN conjunct2, THEN conjunct2, THEN conjunct2,
       THEN conjunct2, THEN conjunct2, THEN conjunct1]
      fetch
    by blast
  have full: "snd (snd (syncIssueComments scenario_source accepting_target 1 7 ?s1)) =
      snd ?s1 @
      [Call Source (GetIssueComments 1), Call Target (GetIssueComments 7),
       Log Info (glyph_speech @ '' Creating comment in issue #7''),
       Call Target (CreateIssueComment 7 comment_first),
       Log Warning ''Failed to sync comment in issue #7: denied'',
       Log Info (glyph_speech @ '' Creating comment in issue #7''),
       Call Target (CreateIssueComment 7 comment_last),
       Log Info (glyph_check @ '' Created comment in issue #7'')]"
    by (simp add: syncIssueComments_def syncIssueComments_item_def createComment_def
        compareComments_def openingOf_def closingOf_def try_catch_def seq_def invoke_def
        core_log_def ret_def scenario_source_def accepting_target_def scenario_target_def
        comment_first_def comment_middle_def comment_last_def numberToString_digit digit_def)
  have "calls (snd (snd (syncIssues_item scenario_source accepting_target ?c ?s0))) =
     [(Target, UpdateIssue 7 bugA), (Source, GetIssueComments 1), (Target, GetIssueComments 7),
      (Target, CreateIssueComment 7 comment_first),
      (Target, CreateIssueComment 7 comment_last)]"
    unfolding item nums full by simp
  moreover have "warnings (snd (snd (syncIssues_item scenario_source accepting_target ?c ?s0))) =
     [''Failed to sync comment in issue #7: denied'']"
    unfolding item nums full by simp
  moreover have "calls (snd (snd (syncIssues_item commentless_source accepting_target ?c ?s0))) =
     [(Target, UpdateIssue 7 bugA), (Source, GetIssueComments 1)]"
    unfolding item nums quiet by simp
  moreover have "warnings (snd (snd (syncIssues_item commentless_source accepting_target ?c ?s0))) =
     [''Failed to sync comments for issue #1: no comments'']"
    unfolding item nums quiet by (simp add: numberToString_digit digit_def)
  ultimately show ?thesis
    by (intro conjI)
qed

end
